theory Spec2Isabelle
  imports Main "HOL-Library.Word"
begin

section \<open>JavaScript strings and values\<close>

text \<open>
  A JavaScript string is a sequence of 16-bit code units. ASCII literals of the source are
  written \<open>js ''...''\<close>; the three non-ASCII characters the source prints are given by
  their code unit.
\<close>

type_synonym jsstring = "16 word list"

definition js :: "string \<Rightarrow> jsstring" where
  "js s = map (\<lambda>c. of_nat (of_char c)) s"

definition ARROW :: jsstring where
  "ARROW = [0x2192]"

definition ELLIPSIS :: jsstring where
  "ELLIPSIS = [0x2026]"

definition is_high_surrogate :: "16 word \<Rightarrow> bool" where
  "is_high_surrogate u \<longleftrightarrow> 0xD800 \<le> u \<and> u \<le> 0xDBFF"

definition is_low_surrogate :: "16 word \<Rightarrow> bool" where
  "is_low_surrogate u \<longleftrightarrow> 0xDC00 \<le> u \<and> u \<le> 0xDFFF"

text \<open>
  \<open>Array.from(s)\<close> iterates a string by code points: a high surrogate directly followed
  by a low surrogate is one element, every other code unit (a lone surrogate too) is an
  element of its own.
\<close>

fun code_points :: "jsstring \<Rightarrow> jsstring list" where
  "code_points [] = []"
| "code_points [u] = [[u]]"
| "code_points (u # v # rest) =
     (if is_high_surrogate u \<and> is_low_surrogate v
      then [u, v] # code_points rest
      else [u] # code_points (v # rest))"

text \<open>A string that does not begin with a low surrogate.\<close>

definition no_low_start :: "jsstring \<Rightarrow> bool" where
  "no_low_start m \<longleftrightarrow> (case m of [] \<Rightarrow> True | u # _ \<Rightarrow> \<not> is_low_surrogate u)"

text \<open>
  The values a document field or a setting can hold. Numbers are whole numbers (the tracked
  fields are counters: hit points, coins, slots, quantities), with \<open>NaN\<close> and the
  infinities apart; \<open>JObj\<close> is a plain object. A whole number \<open>n\<close> stands for
  the double of that value. The doubles hold every whole number from \<open>-(2^53 - 1)\<close> to
  \<open>2^53 - 1\<close> exactly (\<open>Number.isSafeInteger\<close>); there the difference of two of them
  is their exact difference as long as it is in that range too, and a template literal
  prints the decimal digits. Beyond that range a double rounds and, from \<open>10^21\<close> on,
  prints with an exponent, and a number with a fraction has no term here: what is proved
  about the digits a line shows is proved for safe integers.
\<close>

datatype jsval =
    JUndefined
  | JNull
  | JBool bool
  | JNum int
  | JNaN
  | JInfinity
  | JStr jsstring
  | JObj

text \<open>\<open>Boolean(v)\<close>.\<close>

fun truthy :: "jsval \<Rightarrow> bool" where
  "truthy JUndefined = False"
| "truthy JNull = False"
| "truthy (JBool b) = b"
| "truthy (JNum n) = (n \<noteq> 0)"
| "truthy JNaN = False"
| "truthy JInfinity = True"
| "truthy (JStr s) = (s \<noteq> [])"
| "truthy JObj = True"

text \<open>
  \<open>Number(v)\<close> where \<open>Number.isFinite(Number(v))\<close> holds, and \<open>None\<close> where it does
  not. The conversion of a string is the runtime's (\<open>sn\<close>); a plain object converts to
  \<open>NaN\<close>.
\<close>

fun finiteNumber :: "(jsstring \<Rightarrow> int option) \<Rightarrow> jsval \<Rightarrow> int option" where
  "finiteNumber sn JUndefined = None"
| "finiteNumber sn JNull = Some 0"
| "finiteNumber sn (JBool b) = Some (if b then 1 else 0)"
| "finiteNumber sn (JNum n) = Some n"
| "finiteNumber sn JNaN = None"
| "finiteNumber sn JInfinity = None"
| "finiteNumber sn (JStr s) = sn s"
| "finiteNumber sn JObj = None"

definition MAX_SAFE_INTEGER :: int where
  "MAX_SAFE_INTEGER = 2 ^ 53 - 1"

definition isSafeInteger :: "int \<Rightarrow> bool" where
  "isSafeInteger n \<longleftrightarrow> - MAX_SAFE_INTEGER \<le> n \<and> n \<le> MAX_SAFE_INTEGER"

text \<open>
  A safe integer in a template literal: decimal digits, with a minus sign below zero.
\<close>

fun digits :: "nat \<Rightarrow> jsstring" where
  "digits n =
     (if n < 10 then [of_nat (48 + n)]
      else digits (n div 10) @ [of_nat (48 + n mod 10)])"

declare digits.simps [simp del]

definition numToString :: "int \<Rightarrow> jsstring" where
  "numToString i = (if i < 0 then js ''-'' @ digits (nat (- i)) else digits (nat i))"

text \<open>\<open>String.prototype.trim\<close>: white space and line terminators go from both ends.\<close>

definition is_js_whitespace :: "16 word \<Rightarrow> bool" where
  "is_js_whitespace u \<longleftrightarrow>
     u \<in> {0x09, 0x0A, 0x0B, 0x0C, 0x0D, 0x20, 0xA0, 0x1680, 0x2028, 0x2029, 0x202F,
          0x205F, 0x3000, 0xFEFF}
     \<or> (0x2000 \<le> u \<and> u \<le> 0x200A)"

definition trim :: "jsstring \<Rightarrow> jsstring" where
  "trim s = rev (dropWhile is_js_whitespace (rev (dropWhile is_js_whitespace s)))"

section \<open>The host: documents, users, settings\<close>

text \<open>
  Modelled from the spec: the host's read accessors \<open>foundry.utils.getProperty\<close> and
  \<open>foundry.utils.hasProperty\<close>, which are not part of this repository ("get current value
  at a dotted field location on a record; test whether a proposed change set would touch a
  given location"). A document is the map from dotted locations to the values found there;
  a location that is not there reads as \<open>undefined\<close>.
\<close>

type_synonym doc = "jsstring \<rightharpoonup> jsval"

definition getProperty :: "doc \<Rightarrow> jsstring \<Rightarrow> jsval" where
  "getProperty d p = (case d p of None \<Rightarrow> JUndefined | Some v \<Rightarrow> v)"

definition hasProperty :: "doc \<Rightarrow> jsstring \<Rightarrow> bool" where
  "hasProperty d p \<longleftrightarrow> d p \<noteq> None"

record user =
  uid :: string
  isGM :: bool

record token =
  token_name :: "jsstring option"

record actor =
  uuid :: string
  name :: "jsstring option"
  atype :: string
  isToken :: bool
  token :: "token option"
  activeTokens :: "token list"
  data :: doc
  testUserPermission :: "(user \<Rightarrow> bool) option"

record item =
  item_uuid :: string
  item_name :: "jsstring option"
  item_type :: string
  parent :: "actor option"
  item_data :: doc

text \<open>
  The ambient \<open>game\<close> object. \<open>settings g key = None\<close> is a key that is not registered,
  for which \<open>game.settings.get\<close> throws; \<open>stringToNumber\<close> is the runtime's conversion of a
  string by \<open>Number\<close>, \<open>None\<close> where the result is not finite.
\<close>

record game =
  system_id :: string
  userId :: string
  users :: "user list"
  settings :: "string \<rightharpoonup> jsval"
  stringToNumber :: "jsstring \<Rightarrow> int option"

datatype exn = SettingNotRegistered string | TypeError

record chat_message =
  content :: jsstring
  whisper :: "string list"
  kind :: string
  cls :: string

section \<open>Utilities of \<open>scripts/hp-delta.mjs\<close>\<close>

definition MAX_NAME_CHARS :: nat where
  "MAX_NAME_CHARS = 25"


text \<open>\<open>String(name ?? "")\<close> of a name that is a string, or \<open>null\<close>/\<open>undefined\<close> (\<open>None\<close>).\<close>

definition clipName :: "jsstring option \<Rightarrow> jsstring" where
  "clipName nm =
     (let chars = code_points (case nm of None \<Rightarrow> [] | Some s \<Rightarrow> s)
      in if length chars \<le> MAX_NAME_CHARS then concat chars
         else concat (take MAX_NAME_CHARS chars) @ ELLIPSIS)"

text \<open>The earlier variants: the same budget with the marker \<open>[...]\<close>, and a budget of 30.\<close>

definition clipName_v1 :: "jsstring option \<Rightarrow> jsstring" where
  "clipName_v1 nm =
     (let chars = code_points (case nm of None \<Rightarrow> [] | Some s \<Rightarrow> s)
      in if length chars \<le> MAX_NAME_CHARS then concat chars
         else concat (take MAX_NAME_CHARS chars) @ js ''[...]'')"

definition MAX_NAME_CHARS_p1 :: nat where
  "MAX_NAME_CHARS_p1 = 30"

definition clipName_p1 :: "jsstring option \<Rightarrow> jsstring" where
  "clipName_p1 nm =
     (let chars = code_points (case nm of None \<Rightarrow> [] | Some s \<Rightarrow> s)
      in if length chars \<le> MAX_NAME_CHARS_p1 then concat chars
         else concat (take MAX_NAME_CHARS_p1 chars) @ js ''[...]'')"

text \<open>\<open>token?.name || actor.name\<close> with \<open>token = actor.token || actor.getActiveTokens()[0]\<close>.\<close>

definition nonempty_name :: "jsstring option \<Rightarrow> bool" where
  "nonempty_name nm \<longleftrightarrow> (case nm of None \<Rightarrow> False | Some s \<Rightarrow> s \<noteq> [])"

definition getActorLink :: "actor \<Rightarrow> jsstring" where
  "getActorLink a =
     (let tok = (case token a of Some t \<Rightarrow> Some t
                 | None \<Rightarrow> (case activeTokens a of [] \<Rightarrow> None | t # _ \<Rightarrow> Some t));
          rawName = (case tok of None \<Rightarrow> name a
                     | Some t \<Rightarrow> if nonempty_name (token_name t) then token_name t else name a);
          label = clipName rawName
      in js ''@UUID['' @ js (uuid a) @ js '']{'' @ label @ js ''}'')"

definition getWorldBool :: "game \<Rightarrow> string \<Rightarrow> bool \<Rightarrow> bool" where
  "getWorldBool g key def = (case settings g key of None \<Rightarrow> def | Some v \<Rightarrow> truthy v)"

definition getWorldPath :: "game \<Rightarrow> string \<Rightarrow> jsstring option" where
  "getWorldPath g key =
     (case settings g key of
        Some (JStr v) \<Rightarrow> if trim v \<noteq> [] then Some (trim v) else None
      | _ \<Rightarrow> None)"

record paths =
  hpPath :: "jsstring option"
  tempPath :: "jsstring option"
  tempMaxPath :: "jsstring option"
  damageSystem :: bool

definition candidatesHP :: "jsstring list" where
  "candidatesHP = [js ''system.attributes.hp.value'', js ''system.hp.value'',
                   js ''system.health.value'']"

definition candidatesTemp :: "jsstring list" where
  "candidatesTemp = [js ''system.attributes.hp.temp'', js ''system.hp.temp'']"

definition candidatesTempMax :: "jsstring list" where
  "candidatesTempMax = [js ''system.attributes.hp.tempmax'', js ''system.hp.tempmax'']"

text \<open>
  \<open>Number.isFinite(Number(foundry.utils.getProperty(sampleActor ?? {}, p)))\<close>; the sample
  actor may be missing (\<open>None\<close>), and is then the empty object.
\<close>

definition probe :: "game \<Rightarrow> actor option \<Rightarrow> jsstring \<Rightarrow> bool" where
  "probe g sampleActor p =
     (finiteNumber (stringToNumber g)
        (getProperty (case sampleActor of None \<Rightarrow> Map.empty | Some a \<Rightarrow> data a) p) \<noteq> None)"

text \<open>\<open>xs.find(pred) || null\<close>: a found string that is empty is falsy.\<close>

definition find_or_null :: "(jsstring \<Rightarrow> bool) \<Rightarrow> jsstring list \<Rightarrow> jsstring option" where
  "find_or_null pred xs =
     (case find pred xs of None \<Rightarrow> None | Some p \<Rightarrow> if p = [] then None else Some p)"

definition detectSystemPaths :: "game \<Rightarrow> actor option \<Rightarrow> paths" where
  "detectSystemPaths g sampleActor =
     (let sys = system_id g in
      if sys = ''dnd5e'' then
        \<lparr>hpPath = Some (js ''system.attributes.hp.value''),
         tempPath = Some (js ''system.attributes.hp.temp''),
         tempMaxPath = Some (js ''system.attributes.hp.tempmax''),
         damageSystem = False\<rparr>
      else if sys = ''pf2e'' then
        \<lparr>hpPath = Some (js ''system.attributes.hp.value''),
         tempPath = Some (js ''system.attributes.hp.temp''),
         tempMaxPath = None, damageSystem = False\<rparr>
      else if sys = ''shadowdark'' then
        \<lparr>hpPath = Some (js ''system.hp.value''), tempPath = None, tempMaxPath = None,
         damageSystem = False\<rparr>
      else
        \<lparr>hpPath = find_or_null (probe g sampleActor) candidatesHP,
         tempPath = find_or_null (probe g sampleActor) candidatesTemp,
         tempMaxPath = find_or_null (probe g sampleActor) candidatesTempMax,
         damageSystem = False\<rparr>)"

definition resolvePaths :: "game \<Rightarrow> actor option \<Rightarrow> paths" where
  "resolvePaths g a =
     (if getWorldBool g ''autoDetectPaths'' True then detectSystemPaths g a
      else \<lparr>hpPath = getWorldPath g ''hpPath'',
            tempPath = getWorldPath g ''tempHpPath'',
            tempMaxPath = getWorldPath g ''tempHpMaxPath'',
            damageSystem = False\<rparr>)"

text \<open>\<open>!path\<close>: the path is \<open>null\<close> or the empty string.\<close>

definition no_path :: "jsstring option \<Rightarrow> bool" where
  "no_path p \<longleftrightarrow> (case p of None \<Rightarrow> True | Some s \<Rightarrow> s = [])"

definition readNumber :: "game \<Rightarrow> doc \<Rightarrow> jsstring option \<Rightarrow> int" where
  "readNumber g d path =
     (case path of
        None \<Rightarrow> 0
      | Some p \<Rightarrow>
          if p = [] then 0
          else (case finiteNumber (stringToNumber g) (getProperty d p) of
                  None \<Rightarrow> 0 | Some n \<Rightarrow> n))"

definition readRaw :: "doc \<Rightarrow> jsstring option \<Rightarrow> jsval" where
  "readRaw d path =
     (case path of None \<Rightarrow> JUndefined
      | Some p \<Rightarrow> if p = [] then JUndefined else getProperty d p)"

definition willUpdatePath :: "doc \<Rightarrow> jsstring option \<Rightarrow> bool" where
  "willUpdatePath update path \<longleftrightarrow>
     (case path of None \<Rightarrow> False | Some p \<Rightarrow> p \<noteq> [] \<and> hasProperty update p)"

text \<open>
  \<open>[...new Map(lists.flat().map(u => [u.id, u])).values()]\<close>: a key keeps the position of
  its first insertion and the value of its last.
\<close>

fun map_set :: "user \<Rightarrow> user list \<Rightarrow> user list" where
  "map_set u [] = [u]"
| "map_set u (x # xs) = (if uid x = uid u then u # xs else x # map_set u xs)"

definition uniq :: "user list \<Rightarrow> user list" where
  "uniq us = foldl (\<lambda>acc u. map_set u acc) [] us"

definition gmUsers :: "game \<Rightarrow> user list" where
  "gmUsers g = filter isGM (users g)"

definition owners :: "game \<Rightarrow> actor \<Rightarrow> user list" where
  "owners g a =
     filter (\<lambda>u. case testUserPermission a of None \<Rightarrow> False | Some f \<Rightarrow> f u) (users g)"

text \<open>\<open>game.settings.get(MOD_ID, "npcAudience") ?? "gm-owners"\<close>, which throws on a key that
  is not registered.\<close>

definition npcAudience :: "game \<Rightarrow> exn + jsval" where
  "npcAudience g =
     (case settings g ''npcAudience'' of
        None \<Rightarrow> Inl (SettingNotRegistered ''npcAudience'')
      | Some JUndefined \<Rightarrow> Inr (JStr (js ''gm-owners''))
      | Some JNull \<Rightarrow> Inr (JStr (js ''gm-owners''))
      | Some v \<Rightarrow> Inr v)"

definition buildRecipients :: "game \<Rightarrow> actor \<Rightarrow> exn + string list" where
  "buildRecipients g a =
     (case npcAudience g of
        Inl e \<Rightarrow> Inl e
      | Inr mode \<Rightarrow>
          if atype a = ''npc'' \<and> mode = JStr (js ''gm'') then Inr (map uid (gmUsers g))
          else if atype a = ''npc'' \<and> mode = JStr (js ''gm-players'')
          then Inr (map uid (uniq (gmUsers g @ filter (\<lambda>u. \<not> isGM u) (users g))))
          else Inr (map uid (uniq (gmUsers g @ owners g a))))"

text \<open>The first variant of the file (lines 169 to 191), with its safety fallback.\<close>

definition buildRecipients_v1 :: "game \<Rightarrow> actor \<Rightarrow> exn + string list" where
  "buildRecipients_v1 g a =
     (case npcAudience g of
        Inl e \<Rightarrow> Inl e
      | Inr mode \<Rightarrow>
          (let recipients =
             (if atype a = ''npc'' then
                (if mode = JStr (js ''gm'') then gmUsers g
                 else if mode = JStr (js ''gm-players'')
                 then uniq (gmUsers g @ filter (\<lambda>u. \<not> isGM u) (users g))
                 else uniq (gmUsers g @ owners g a))
              else uniq (gmUsers g @ owners g a));
               recipients' = (if recipients = [] then gmUsers g else recipients)
           in Inr (map uid recipients')))"

section \<open>Posting chat lines\<close>

text \<open>
  What a sequence of posts leaves behind: the messages created, in order, and the exception
  that ended the sequence, if one did. \<open>ChatMessage.create\<close> itself is taken to succeed;
  an \<open>await\<close> is sequential composition.
\<close>

type_synonym posted = "chat_message list \<times> exn option"

definition andThen :: "posted \<Rightarrow> posted \<Rightarrow> posted" where
  "andThen p q = (case snd p of Some e \<Rightarrow> p | None \<Rightarrow> (fst p @ fst q, snd q))"

fun sequence :: "posted list \<Rightarrow> posted" where
  "sequence [] = ([], None)"
| "sequence (p # ps) = andThen p (sequence ps)"

definition postMonitorMessage ::
  "game \<Rightarrow> actor \<Rightarrow> jsstring \<Rightarrow> string \<Rightarrow> string \<Rightarrow> bool \<Rightarrow> posted" where
  \<open>postMonitorMessage g a line c k isMultiline =
     (case buildRecipients g a of
        Inl e \<Rightarrow> ([], Some e)
      | Inr w \<Rightarrow>
          ([\<lparr>content = js ''<div class="''
                       @ (if isMultiline then js ''tiny-monitor-line tm-multiline''
                          else js ''tiny-monitor-line'')
                       @ js ''">'' @ line @ js ''</div>'',
             whisper = w, kind = k, cls = c\<rparr>], None))\<close>

definition buildMonitorLine :: "actor \<Rightarrow> jsstring \<Rightarrow> jsstring \<Rightarrow> jsstring" where
  \<open>buildMonitorLine a icon text =
     icon @ js ''<span class="tm-actor">'' @ getActorLink a
          @ js ''</span><span class="tm-text">'' @ text @ js ''</span>''\<close>

definition toUpperCase :: "string \<Rightarrow> string" where
  "toUpperCase s =
     map (\<lambda>c. let n = (of_char c :: nat) in
               if 97 \<le> n \<and> n \<le> 122 then char_of (n - 32) else c) s"

definition coinLabel :: "string \<Rightarrow> string \<Rightarrow> jsstring" where
  "coinLabel denom systemId =
     (if (systemId = ''dnd5e'' \<or> systemId = ''pf2e'') \<and> denom = ''pp'' then js ''Platinum''
      else if (systemId = ''dnd5e'' \<or> systemId = ''pf2e'') \<and> denom = ''gp'' then js ''Gold''
      else if systemId = ''dnd5e'' \<and> denom = ''ep'' then js ''Electrum''
      else if (systemId = ''dnd5e'' \<or> systemId = ''pf2e'') \<and> denom = ''sp'' then js ''Silver''
      else if (systemId = ''dnd5e'' \<or> systemId = ''pf2e'') \<and> denom = ''cp'' then js ''Copper''
      else js (toUpperCase denom))"

text \<open>
  The text every numeric line of \<open>processActorUpdate\<close> builds:
  \<open>sign = delta > 0 ? "+" : "-"\<close>, \<open>abs = Math.abs(delta)\<close>, and then either
  \<open>label: sign abs\<close> (simplified output) or \<open>label: old sign abs \<rightarrow> new\<close>. The
  difference is the exact one, which is the double's when \<open>old\<close>, \<open>new\<close> and
  \<open>new - old\<close> are safe integers.
\<close>

definition signOf :: "int \<Rightarrow> jsstring" where
  "signOf delta = (if delta > 0 then js ''+'' else js ''-'')"

definition deltaText :: "bool \<Rightarrow> jsstring \<Rightarrow> int \<Rightarrow> int \<Rightarrow> jsstring" where
  "deltaText isSimple label old new =
     (let delta = new - old; sign = signOf delta; mag = \<bar>delta\<bar> in
      if isSimple then label @ js '': '' @ sign @ js '' '' @ numToString mag
      else label @ js '': '' @ numToString old @ js '' '' @ sign @ js '' '' @ numToString mag
           @ js '' '' @ ARROW @ js '' '' @ numToString new)"

section \<open>The debounced variant: pending state and \<open>processActorUpdate\<close>\<close>

record slot =
  slot_level :: nat
  slot_path :: jsstring
  slot_oldValue :: int

record currency_payload =
  c_basePath :: jsstring
  c_coins :: "string list"
  c_old :: "string \<rightharpoonup> int"

text \<open>What \<open>preUpdateActor\<close> stashes in \<open>options[MOD_ID]\<close>; \<open>None\<close> is \<open>undefined\<close>.\<close>

record payload =
  p_oldHP :: "int option"
  p_oldTHP :: "int option"
  p_oldTHPMax :: "int option"
  p_oldInspiration :: "bool option"
  p_currency :: "currency_payload option"
  p_deathSaves :: "(int \<times> int) option"
  p_spellSlots :: "slot list option"

text \<open>An entry of \<open>ACTOR_DEBOUNCE\<close>; \<open>timer\<close> is the handle of the running timer.\<close>

record pending =
  oldHP :: "int option"
  oldTHP :: "int option"
  oldTHPMax :: "int option"
  oldInspiration :: "bool option"
  currencyBase :: "jsstring option"
  currencyCoins :: "string list"
  currencyOld :: "string \<rightharpoonup> int"
  deathSavesOld :: "(int \<times> int) option"
  spellSlotsOld :: "(nat \<times> slot) list"
  timer :: "nat option"

definition nothing :: posted where
  "nothing = ([], None)"

definition gainOrLoss :: "bool \<Rightarrow> int \<Rightarrow> string" where
  "gainOrLoss dmg delta =
     (if (if dmg then delta < 0 else delta > 0) then ''tiny-monitor-gain''
      else ''tiny-monitor-loss'')"

definition hp_step :: "game \<Rightarrow> actor \<Rightarrow> pending \<Rightarrow> paths \<Rightarrow> posted" where
  \<open>hp_step g a pd ps =
     (case oldHP pd of
        None \<Rightarrow> nothing
      | Some old \<Rightarrow>
          if no_path (hpPath ps) then nothing
          else
            (let newHP = readNumber g (data a) (hpPath ps); delta = newHP - old in
             if delta \<noteq> 0 then
               postMonitorMessage g a
                 (buildMonitorLine a (js ''<i class="fa-solid fa-heart"></i>'')
                    (deltaText (getWorldBool g ''simpleOutput'' False)
                       (if damageSystem ps then js ''Damage'' else js ''HP'') old newHP))
                 (gainOrLoss (damageSystem ps) delta) ''hp'' False
             else nothing))\<close>

definition temp_step :: "game \<Rightarrow> actor \<Rightarrow> pending \<Rightarrow> paths \<Rightarrow> posted" where
  \<open>temp_step g a pd ps =
     (case oldTHP pd of
        None \<Rightarrow> nothing
      | Some old \<Rightarrow>
          if no_path (tempPath ps) then nothing
          else
            (let newTHP = readNumber g (data a) (tempPath ps); delta = newTHP - old in
             if delta \<noteq> 0 then
               postMonitorMessage g a
                 (buildMonitorLine a (js ''<i class="fa-solid fa-shield-halved"></i>'')
                    (deltaText (getWorldBool g ''simpleOutput'' False) (js ''Temp'') old newTHP))
                 ''tiny-monitor-temp'' ''temp'' False
             else nothing))\<close>

definition tempmax_step :: "game \<Rightarrow> actor \<Rightarrow> pending \<Rightarrow> paths \<Rightarrow> posted" where
  \<open>tempmax_step g a pd ps =
     (case oldTHPMax pd of
        None \<Rightarrow> nothing
      | Some old \<Rightarrow>
          if no_path (tempMaxPath ps) then nothing
          else
            (let newTHPMax = readNumber g (data a) (tempMaxPath ps); delta = newTHPMax - old in
             if delta \<noteq> 0 then
               postMonitorMessage g a
                 (buildMonitorLine a (js ''<i class="fa-solid fa-circle-plus"></i>'')
                    (deltaText (getWorldBool g ''simpleOutput'' False) (js ''Temp Max'')
                       old newTHPMax))
                 ''tiny-monitor-tempmax'' ''tempmax'' False
             else nothing))\<close>

definition getDnd5eInspirationPath :: jsstring where
  "getDnd5eInspirationPath = js ''system.attributes.inspiration''"

definition inspiration_step :: "game \<Rightarrow> actor \<Rightarrow> pending \<Rightarrow> posted" where
  \<open>inspiration_step g a pd =
     (case oldInspiration pd of
        None \<Rightarrow> nothing
      | Some old \<Rightarrow>
          if system_id g \<noteq> ''dnd5e'' then nothing
          else
            (let newInsp = truthy (readRaw (data a) (Some getDnd5eInspirationPath)) in
             if newInsp \<noteq> old then
               postMonitorMessage g a
                 (buildMonitorLine a (js ''<i class="fa-solid fa-dice-d20"></i>'')
                    ((if newInsp then js ''gained'' else js ''spent'')
                     @ js '' Heroic Inspiration''))
                 ''tiny-monitor-inspiration'' ''inspiration'' False
             else nothing))\<close>

definition coin_step :: "game \<Rightarrow> actor \<Rightarrow> pending \<Rightarrow> jsstring \<Rightarrow> string \<Rightarrow> posted" where
  \<open>coin_step g a pd base k =
     (let oldVal = (case currencyOld pd k of None \<Rightarrow> 0 | Some v \<Rightarrow> v);
          newVal = readNumber g (data a) (Some (base @ js ''.'' @ js k));
          delta = newVal - oldVal in
      if delta \<noteq> 0 then
        postMonitorMessage g a
          (buildMonitorLine a (js ''<i class="fa-solid fa-coins"></i>'')
             (deltaText (getWorldBool g ''simpleOutput'' False) (coinLabel k (system_id g))
                oldVal newVal))
          (if delta > 0 then ''tiny-monitor-currency-gain'' else ''tiny-monitor-currency-loss'')
          ''currency'' False
      else nothing)\<close>

definition currency_step :: "game \<Rightarrow> actor \<Rightarrow> pending \<Rightarrow> posted" where
  "currency_step g a pd =
     (case currencyBase pd of
        None \<Rightarrow> nothing
      | Some base \<Rightarrow>
          if base = [] then nothing
          else sequence (map (coin_step g a pd base) (currencyCoins pd)))"

definition successPath :: jsstring where
  "successPath = js ''system.attributes.death.success''"

definition failurePath :: jsstring where
  "failurePath = js ''system.attributes.death.failure''"

definition death_success_step :: "game \<Rightarrow> actor \<Rightarrow> int \<Rightarrow> posted" where
  \<open>death_success_step g a oldSucc =
     (let newSucc = readNumber g (data a) (Some successPath) in
      if newSucc \<noteq> oldSucc then
        (let delta = newSucc - oldSucc; icon = js ''<i class="fa-solid fa-heart-pulse"></i>'' in
         if delta > 0 then
           postMonitorMessage g a
             (buildMonitorLine a icon
                (js ''gained '' @ numToString delta @ js '' Death Save ''
                 @ (if delta = 1 then js ''Success'' else js ''Successes'')
                 @ js '' ('' @ numToString newSucc @ js ''/3)''))
             ''tiny-monitor-gain'' ''deathsave'' False
         else
           postMonitorMessage g a
             (buildMonitorLine a icon
                (js ''lost '' @ numToString \<bar>delta\<bar> @ js '' Death Save ''
                 @ (if \<bar>delta\<bar> = 1 then js ''Success'' else js ''Successes'')
                 @ js '' ('' @ numToString newSucc @ js ''/3)''))
             ''tiny-monitor-loss'' ''deathsave'' False)
      else nothing)\<close>

definition death_failure_step :: "game \<Rightarrow> actor \<Rightarrow> int \<Rightarrow> posted" where
  \<open>death_failure_step g a oldFail =
     (let newFail = readNumber g (data a) (Some failurePath) in
      if newFail \<noteq> oldFail then
        (let delta = newFail - oldFail; icon = js ''<i class="fa-solid fa-skull"></i>'' in
         if delta > 0 then
           postMonitorMessage g a
             (buildMonitorLine a icon
                (js ''gained '' @ numToString delta @ js '' Death Save ''
                 @ (if delta = 1 then js ''Failure'' else js ''Failures'')
                 @ js '' ('' @ numToString newFail @ js ''/3)''))
             ''tiny-monitor-loss'' ''deathsave'' False
         else
           postMonitorMessage g a
             (buildMonitorLine a icon
                (js ''lost '' @ numToString \<bar>delta\<bar> @ js '' Death Save ''
                 @ (if \<bar>delta\<bar> = 1 then js ''Failure'' else js ''Failures'')
                 @ js '' ('' @ numToString newFail @ js ''/3)''))
             ''tiny-monitor-gain'' ''deathsave'' False)
      else nothing)\<close>

definition death_step :: "game \<Rightarrow> actor \<Rightarrow> pending \<Rightarrow> posted" where
  "death_step g a pd =
     (case deathSavesOld pd of
        None \<Rightarrow> nothing
      | Some (oldSucc, oldFail) \<Rightarrow>
          andThen (death_success_step g a oldSucc) (death_failure_step g a oldFail))"

definition slot_step :: "game \<Rightarrow> actor \<Rightarrow> nat \<times> slot \<Rightarrow> posted" where
  \<open>slot_step g a entry =
     (let lvl = fst entry; slotData = snd entry;
          newVal = readNumber g (data a) (Some (slot_path slotData));
          oldVal = slot_oldValue slotData;
          delta = newVal - oldVal in
      if delta \<noteq> 0 then
        (let absDelta = \<bar>delta\<bar> in
         postMonitorMessage g a
           (buildMonitorLine a (js ''<i class="fa-solid fa-hat-wizard"></i>'')
              ((if delta < 0 then js ''expended'' else js ''regained'') @ js '' ''
               @ (if absDelta > 1 then numToString absDelta @ js '' '' else [])
               @ js ''level '' @ numToString (int lvl) @ js '' ''
               @ (if absDelta = 1 then js ''slot'' else js ''slots'')))
           (if delta < 0 then ''tiny-monitor-spellslot-expend''
            else ''tiny-monitor-spellslot-regain'')
           ''spellslot'' False)
      else nothing)\<close>

definition spellslots_step :: "game \<Rightarrow> actor \<Rightarrow> pending \<Rightarrow> posted" where
  "spellslots_step g a pd =
     sequence (map (slot_step g a) (sort_key fst (spellSlotsOld pd)))"

definition processActorUpdate :: "game \<Rightarrow> actor \<Rightarrow> pending \<Rightarrow> posted" where
  "processActorUpdate g a pd =
     (let ps = resolvePaths g (Some a) in
      sequence [hp_step g a pd ps, temp_step g a pd ps, tempmax_step g a pd ps,
                inspiration_step g a pd, currency_step g a pd, death_step g a pd,
                spellslots_step g a pd])"


datatype step =
    StepHP
  | StepTemp
  | StepTempMax
  | StepInspiration
  | StepCoin string
  | StepDeathSuccess
  | StepDeathFailure
  | StepSlot "nat \<times> slot"





section \<open>The debounce coalescer of \<open>updateActor\<close>\<close>

definition new_pending :: pending where
  "new_pending =
     \<lparr>oldHP = None, oldTHP = None, oldTHPMax = None, oldInspiration = None,
      currencyBase = None, currencyCoins = [], currencyOld = Map.empty,
      deathSavesOld = None, spellSlotsOld = [], timer = None\<rparr>"

definition merge_coin :: "currency_payload \<Rightarrow> (string \<rightharpoonup> int) \<Rightarrow> string \<Rightarrow> (string \<rightharpoonup> int)" where
  "merge_coin c m k =
     (case m k of
        Some _ \<Rightarrow> m
      | None \<Rightarrow> (case c_old c k of None \<Rightarrow> m | Some v \<Rightarrow> m(k \<mapsto> v)))"

definition merge_slot :: "(nat \<times> slot) list \<Rightarrow> slot \<Rightarrow> (nat \<times> slot) list" where
  "merge_slot al sl =
     (case map_of al (slot_level sl) of
        Some _ \<Rightarrow> al
      | None \<Rightarrow> al @ [(slot_level sl, sl)])"

text \<open>The merge logic: an old value that is already there is kept.\<close>

definition merge :: "pending \<Rightarrow> payload \<Rightarrow> pending" where
  "merge pd pl =
     pd\<lparr>oldHP := (case oldHP pd of None \<Rightarrow> p_oldHP pl | Some v \<Rightarrow> Some v),
        oldTHP := (case oldTHP pd of None \<Rightarrow> p_oldTHP pl | Some v \<Rightarrow> Some v),
        oldTHPMax := (case oldTHPMax pd of None \<Rightarrow> p_oldTHPMax pl | Some v \<Rightarrow> Some v),
        oldInspiration :=
          (case oldInspiration pd of None \<Rightarrow> p_oldInspiration pl | Some v \<Rightarrow> Some v),
        currencyBase :=
          (case p_currency pl of None \<Rightarrow> currencyBase pd | Some c \<Rightarrow> Some (c_basePath c)),
        currencyCoins :=
          (case p_currency pl of None \<Rightarrow> currencyCoins pd | Some c \<Rightarrow> c_coins c),
        currencyOld :=
          (case p_currency pl of None \<Rightarrow> currencyOld pd
           | Some c \<Rightarrow> foldl (merge_coin c) (currencyOld pd) (c_coins c)),
        deathSavesOld :=
          (case deathSavesOld pd of None \<Rightarrow> p_deathSaves pl | Some v \<Rightarrow> Some v),
        spellSlotsOld :=
          (case p_spellSlots pl of None \<Rightarrow> spellSlotsOld pd
           | Some sls \<Rightarrow> foldl merge_slot (spellSlotsOld pd) sls)\<rparr>"

text \<open>
  A running timer: its handle, the time it is due, and the record whose actor and pending
  entry its callback holds. Every ingestion replaces the timer of its entry, so the entry
  the callback holds is the one \<open>ACTOR_DEBOUNCE\<close> has under that key when it fires.
\<close>

record timer_entry =
  handle :: nat
  due :: nat
  key :: string

text \<open>
  A call of \<open>processActorUpdate\<close> that is suspended at an \<open>await\<close>: the actor it holds
  (by uuid), its pending data, the paths it resolved when it started, \<open>newFail\<close>, and
  the steps it has still to do.
\<close>

record flush =
  f_key :: string
  f_data :: pending
  f_paths :: paths
  f_newFail :: int
  f_rest :: "step list"






text \<open>
  The post that the oldest suspended call for the record \<open>k\<close> awaits has resolved: the
  call goes on, on the actor as it is now, to its next \<open>await\<close> or to its end.
\<close>

fun continue_flush :: "string \<Rightarrow> flush option \<Rightarrow> flush list \<Rightarrow> flush list" where
  "continue_flush k r [] = []"
| "continue_flush k r (f # fs) =
     (if f_key f = k then (case r of None \<Rightarrow> fs | Some f' \<Rightarrow> f' # fs)
      else f # continue_flush k r fs)"











section \<open>\<open>preUpdateActor\<close> of the debounced variant\<close>

definition getDnd5eSpellSlotPaths :: "slot list" where
  "getDnd5eSpellSlotPaths =
     map (\<lambda>lvl. \<lparr>slot_level = lvl,
                 slot_path = js ''system.spells.spell'' @ numToString (int lvl) @ js ''.value'',
                 slot_oldValue = 0\<rparr>) [1..<10]"

definition detectCurrencyInfo :: "game \<Rightarrow> actor \<Rightarrow> jsstring option \<times> string list" where
  "detectCurrencyInfo g a =
     (let candidates =
            (case getWorldPath g ''currencyBasePath'' of
               Some manualBase \<Rightarrow> [manualBase]
             | None \<Rightarrow> if system_id g = ''pf2e''
                       then [js ''system.currencies'', js ''system.currency'']
                       else [js ''system.currency'']) in
      case find_or_null (\<lambda>p. getProperty (data a) p = JObj) candidates of
        None \<Rightarrow> (None, [])
      | Some b \<Rightarrow>
          (Some b, filter (\<lambda>k. hasProperty (data a) (b @ js ''.'' @ js k))
                     [''pp'', ''gp'', ''ep'', ''sp'', ''cp'']))"

text \<open>What the hook stashes, or \<open>None\<close> when it returns before stashing.\<close>

definition preUpdateActor_stash :: "game \<Rightarrow> actor \<Rightarrow> doc \<Rightarrow> payload option" where
  "preUpdateActor_stash g a update =
     (let ps = resolvePaths g (Some a);
          sys = system_id g;
          willHP = willUpdatePath update (hpPath ps);
          willTHP = willUpdatePath update (tempPath ps);
          willTHPMax = willUpdatePath update (tempMaxPath ps);
          inspPath = (if sys = ''dnd5e'' \<and> getWorldBool g ''trackDnd5eInspiration'' False
                      then Some getDnd5eInspirationPath else None);
          willInsp = willUpdatePath update inspPath;
          currencyPayload =
            (if getWorldBool g ''trackCurrency'' False \<and> (sys = ''dnd5e'' \<or> sys = ''pf2e'')
             then (case detectCurrencyInfo g a of
                     (None, _) \<Rightarrow> None
                   | (Some b, cs) \<Rightarrow>
                       if cs \<noteq> [] \<and>
                          (willUpdatePath update (Some b) \<or>
                           list_ex (\<lambda>k. willUpdatePath update (Some (b @ js ''.'' @ js k))) cs)
                       then Some (b, cs) else None)
             else None);
          deathPayload =
            (if sys = ''dnd5e'' \<and> getWorldBool g ''trackDnd5eDeathSaves'' False
                \<and> atype a = ''character''
                \<and> (willUpdatePath update (Some successPath)
                     \<or> willUpdatePath update (Some failurePath))
             then Some (readNumber g (data a) (Some successPath),
                        readNumber g (data a) (Some failurePath))
             else None);
          spellSlotsPayload =
            (if sys = ''dnd5e'' \<and> getWorldBool g ''trackDnd5eSpellSlots'' True
             then (let changedSlots =
                         filter (\<lambda>sl. willUpdatePath update (Some (slot_path sl)))
                           getDnd5eSpellSlotPaths in
                   if changedSlots \<noteq> []
                   then Some (map (\<lambda>sl. sl\<lparr>slot_oldValue :=
                                              readNumber g (data a) (Some (slot_path sl))\<rparr>)
                                changedSlots)
                   else None)
             else None)
      in if \<not> willHP \<and> \<not> willTHP \<and> \<not> willTHPMax \<and> \<not> willInsp \<and> currencyPayload = None
            \<and> deathPayload = None \<and> spellSlotsPayload = None
         then None
         else Some
           \<lparr>p_oldHP = (if willHP then Some (readNumber g (data a) (hpPath ps)) else None),
            p_oldTHP = (if willTHP then Some (readNumber g (data a) (tempPath ps)) else None),
            p_oldTHPMax =
              (if willTHPMax then Some (readNumber g (data a) (tempMaxPath ps)) else None),
            p_oldInspiration =
              (if willInsp then Some (truthy (readRaw (data a) inspPath)) else None),
            p_currency =
              (case currencyPayload of
                 None \<Rightarrow> None
               | Some (b, cs) \<Rightarrow>
                   Some \<lparr>c_basePath = b, c_coins = cs,
                         c_old = (\<lambda>k. if k \<in> set cs
                                       then Some (readNumber g (data a)
                                                    (Some (b @ js ''.'' @ js k)))
                                       else None)\<rparr>),
            p_deathSaves = deathPayload,
            p_spellSlots = spellSlotsPayload\<rparr>)"


section \<open>Items: quantity, renaming, deletion\<close>

definition quantityPath :: jsstring where
  "quantityPath = js ''system.quantity''"

definition backpack :: jsstring where
  \<open>backpack = js ''<i class="fa-solid fa-backpack"></i>''\<close>

text \<open>An entry of \<open>ITEM_DEBOUNCE\<close>, without its timer.\<close>

record item_pending =
  oldQty :: "int option"
  oldName :: "jsstring option"

definition quantity_step :: "game \<Rightarrow> item \<Rightarrow> actor \<Rightarrow> item_pending \<Rightarrow> posted" where
  "quantity_step g it par pd =
     (case oldQty pd of
        None \<Rightarrow> nothing
      | Some old \<Rightarrow>
          (let newQty = readNumber g (item_data it) (Some quantityPath) in
           if newQty \<noteq> old then
             (let safeItemName = clipName (item_name it);
                  delta = newQty - old;
                  isSimple = getWorldBool g ''simpleOutput'' False in
              if old = 0 \<and> newQty = 1 then
                postMonitorMessage g par
                  (buildMonitorLine par backpack (js ''added '' @ safeItemName))
                  ''tiny-monitor-item-inc'' ''item'' True
              else if old = 1 \<and> newQty = 0 then
                postMonitorMessage g par
                  (buildMonitorLine par backpack (js ''deleted '' @ safeItemName))
                  ''tiny-monitor-item-dec'' ''item'' True
              else
                postMonitorMessage g par
                  (buildMonitorLine par backpack (deltaText isSimple safeItemName old newQty))
                  (if delta > 0 then ''tiny-monitor-item-inc'' else ''tiny-monitor-item-dec'')
                  ''item'' True)
           else nothing))"

definition rename_step :: "game \<Rightarrow> item \<Rightarrow> actor \<Rightarrow> item_pending \<Rightarrow> posted" where
  "rename_step g it par pd =
     (case oldName pd of
        None \<Rightarrow> nothing
      | Some old \<Rightarrow>
          if item_name it \<noteq> Some old then
            postMonitorMessage g par
              (buildMonitorLine par backpack
                 (js ''Item: '' @ clipName (Some old) @ js '' '' @ ARROW @ js '' ''
                  @ clipName (item_name it)))
              ''tiny-monitor-item'' ''item'' True
          else nothing)"

definition processItemUpdate :: "game \<Rightarrow> item \<Rightarrow> item_pending \<Rightarrow> posted" where
  "processItemUpdate g it pd =
     (case parent it of
        None \<Rightarrow> nothing
      | Some par \<Rightarrow> andThen (quantity_step g it par pd) (rename_step g it par pd))"

text \<open>An entry of \<open>ITEM_DELETE_STASH\<close>, which is keyed by the item.\<close>

record delete_payload =
  d_actor :: actor
  d_whisper :: "string list"
  d_name :: jsstring
  d_qty :: int
  d_hasQty :: bool

definition preDeleteItem ::
  "game \<Rightarrow> (string \<rightharpoonup> delete_payload) \<Rightarrow> item \<Rightarrow> exn + (string \<rightharpoonup> delete_payload)" where
  "preDeleteItem g stash it =
     (if \<not> getWorldBool g ''trackItemChanges'' False then Inr stash
      else case parent it of
        None \<Rightarrow> Inr stash
      | Some par \<Rightarrow>
          (case buildRecipients g par of
             Inl e \<Rightarrow> Inl e
           | Inr w \<Rightarrow>
               Inr (stash(item_uuid it \<mapsto>
                      \<lparr>d_actor = par, d_whisper = w, d_name = clipName (item_name it),
                       d_qty = readNumber g (item_data it) (Some quantityPath),
                       d_hasQty = hasProperty (item_data it) quantityPath\<rparr>))))"

text \<open>The \<open>deleteItem\<close> hook: the stash it leaves and the messages it creates.\<close>

definition deleteItem ::
  "game \<Rightarrow> (string \<rightharpoonup> delete_payload) \<Rightarrow> item \<Rightarrow> string \<Rightarrow>
   (string \<rightharpoonup> delete_payload) \<times> chat_message list" where
  \<open>deleteItem g stash it uid' =
     (if uid' \<noteq> userId g \<or> \<not> getWorldBool g ''trackItemChanges'' False then (stash, [])
      else case stash (item_uuid it) of
        None \<Rightarrow> (stash(item_uuid it := None), [])
      | Some pl \<Rightarrow>
          (let stash' = stash(item_uuid it := None); qty = d_qty pl in
           if d_hasQty pl \<and> qty = 0 then (stash', [])
           else
             (let treatAsSingleton = (\<not> d_hasQty pl \<or> qty \<le> 1);
                  line =
                    (if treatAsSingleton \<or> getWorldBool g ''simpleOutput'' False
                     then buildMonitorLine (d_actor pl) backpack (js ''deleted '' @ d_name pl)
                     else buildMonitorLine (d_actor pl) backpack
                            (d_name pl @ js '': '' @ numToString qty @ js '' - ''
                             @ numToString qty @ js '' '' @ ARROW @ js '' 0''))
              in (stash',
                  [\<lparr>content = js ''<div class="tiny-monitor-line tm-multiline">'' @ line
                               @ js ''</div>'',
                    whisper = d_whisper pl, kind = ''item'',
                    cls = ''tiny-monitor-item-dec''\<rparr>]))))\<close>

text \<open>
  The same hook in the other debounced variant of the file (lines 1662 to 1686), whose
  stash holds the actor link instead of the actor.
\<close>

record delete_payload_mid =
  m_link :: jsstring
  m_whisper :: "string list"
  m_name :: jsstring
  m_qty :: int
  m_hasQty :: bool

definition deleteItem_mid ::
  "game \<Rightarrow> (string \<rightharpoonup> delete_payload_mid) \<Rightarrow> item \<Rightarrow> string \<Rightarrow>
   (string \<rightharpoonup> delete_payload_mid) \<times> chat_message list" where
  \<open>deleteItem_mid g stash it uid' =
     (if uid' \<noteq> userId g \<or> \<not> getWorldBool g ''trackItemChanges'' False then (stash, [])
      else case stash (item_uuid it) of
        None \<Rightarrow> (stash(item_uuid it := None), [])
      | Some pl \<Rightarrow>
          (let stash' = stash(item_uuid it := None); qty = m_qty pl in
           if m_hasQty pl \<and> qty = 0 then (stash', [])
           else
             (let treatAsSingleton = (\<not> m_hasQty pl \<or> qty \<le> 1);
                  line =
                    (if treatAsSingleton
                     then backpack @ js '' '' @ m_link pl @ js '' Item deleted: '' @ m_name pl
                     else backpack @ js '' '' @ m_link pl @ [0x27] @ js ''s Item: ''
                          @ m_name pl @ js '' '' @ [0x2014] @ js '' '' @ numToString qty
                          @ js '' - '' @ numToString qty @ js '' '' @ ARROW @ js '' 0'')
              in (stash',
                  [\<lparr>content = js ''<div class="tiny-monitor-line tm-multiline">'' @ line
                               @ js ''</div>'',
                    whisper = m_whisper pl, kind = ''item'',
                    cls = ''tiny-monitor-item-dec''\<rparr>]))))\<close>

section \<open>The first variant of the file (lines 1 to 409): hooks wrapped in \<open>try\<close>/\<open>catch\<close>\<close>

definition candidatesHP_v1 :: "jsstring list" where
  "candidatesHP_v1 =
     [js ''system.attributes.hp.value'', js ''system.hp.value'', js ''system.health.value'',
      js ''system.attributes.health.value'', js ''system.resources.hp.value'',
      js ''system.vitals.hp.value'']"

definition candidatesTemp_v1 :: "jsstring list" where
  "candidatesTemp_v1 =
     [js ''system.attributes.hp.temp'', js ''system.hp.temp'', js ''system.health.temp'']"

definition candidatesTempMax_v1 :: "jsstring list" where
  "candidatesTempMax_v1 =
     [js ''system.attributes.hp.tempmax'', js ''system.hp.tempmax'',
      js ''system.health.tempmax'']"

text \<open>This variant's path table has no \<open>damageSystem\<close> entry; the field is \<open>False\<close> here.\<close>

definition detectSystemPaths_v1 :: "game \<Rightarrow> actor option \<Rightarrow> paths" where
  "detectSystemPaths_v1 g sampleActor =
     (let sys = system_id g in
      if sys = ''dnd5e'' then
        \<lparr>hpPath = Some (js ''system.attributes.hp.value''),
         tempPath = Some (js ''system.attributes.hp.temp''),
         tempMaxPath = Some (js ''system.attributes.hp.tempmax''),
         damageSystem = False\<rparr>
      else if sys = ''pf2e'' then
        \<lparr>hpPath = Some (js ''system.attributes.hp.value''),
         tempPath = Some (js ''system.attributes.hp.temp''),
         tempMaxPath = None, damageSystem = False\<rparr>
      else if sys = ''shadowdark'' then
        \<lparr>hpPath = Some (js ''system.hp.value''), tempPath = None, tempMaxPath = None,
         damageSystem = False\<rparr>
      else
        \<lparr>hpPath = find_or_null (probe g sampleActor) candidatesHP_v1,
         tempPath = find_or_null (probe g sampleActor) candidatesTemp_v1,
         tempMaxPath = find_or_null (probe g sampleActor) candidatesTempMax_v1,
         damageSystem = False\<rparr>)"


definition getDisplayName :: "actor \<Rightarrow> jsstring" where
  "getDisplayName a =
     (let tokenName =
        (if isToken a \<and> token a \<noteq> None then
           (case token a of
              Some t \<Rightarrow> if nonempty_name (token_name t) then token_name t else name a
            | None \<Rightarrow> name a)
         else
           (case activeTokens a of
              [] \<Rightarrow> name a
            | t # _ \<Rightarrow> if nonempty_name (token_name t) then token_name t else name a))
      in clipName_v1 tokenName)"

record payload_v1 =
  v_oldHP :: "int option"
  v_oldTHP :: "int option"
  v_oldTHPMax :: "int option"
  v_oldInspiration :: "bool option"

definition empty_payload_v1 :: payload_v1 where
  "empty_payload_v1 =
     \<lparr>v_oldHP = None, v_oldTHP = None, v_oldTHPMax = None, v_oldInspiration = None\<rparr>"




definition line_v1 :: "jsstring \<Rightarrow> jsstring \<Rightarrow> int \<Rightarrow> int \<Rightarrow> jsstring" where
  "line_v1 displayName label old new =
     displayName @ js '' '' @ deltaText False label old new"








section \<open>The variant with the damage system (\<open>unnamed/part_002\<close>) and the first release
  (\<open>unnamed/part_003\<close>)\<close>

definition detectSystemPaths_p2 :: "game \<Rightarrow> actor option \<Rightarrow> paths" where
  "detectSystemPaths_p2 g sampleActor =
     (if system_id g = ''demonlord'' then
        \<lparr>hpPath = Some (js ''system.characteristics.health.value''),
         tempPath = None,
         tempMaxPath = Some (js ''system.characteristics.health.max''),
         damageSystem = True\<rparr>
      else detectSystemPaths_v1 g sampleActor)"

definition resolvePaths_p2 :: "game \<Rightarrow> actor option \<Rightarrow> paths" where
  "resolvePaths_p2 g a =
     (if getWorldBool g ''autoDetectPaths'' True then detectSystemPaths_p2 g a
      else \<lparr>hpPath = getWorldPath g ''hpPath'',
            tempPath = getWorldPath g ''tempHpPath'',
            tempMaxPath = getWorldPath g ''tempHpMaxPath'',
            damageSystem = False\<rparr>)"

text \<open>The HP branch of \<open>updateActor\<close> in that variant: the result it pushes, if any.\<close>

definition hp_results_p2 :: "game \<Rightarrow> actor \<Rightarrow> paths \<Rightarrow> payload_v1 \<Rightarrow> (jsstring \<times> string \<times> string) list" where
  "hp_results_p2 g a ps pl =
     (case v_oldHP pl of
        None \<Rightarrow> []
      | Some old \<Rightarrow>
          if no_path (hpPath ps) then []
          else (let newHP = readNumber g (data a) (hpPath ps); delta = newHP - old in
                if delta \<noteq> 0
                then [(line_v1 (getDisplayName a)
                         (if damageSystem ps then js ''Damage'' else js ''HP'') old newHP,
                       if damageSystem ps
                       then (if delta < 0 then ''hp-gain'' else ''hp-loss'')
                       else (if delta > 0 then ''hp-gain'' else ''hp-loss''),
                       ''hp'')]
                else []))"

text \<open>\<open>formatDelta\<close> of the first release: \<open>delta >= 0 ? "+" : "-"\<close>.\<close>

definition formatDelta :: "int \<Rightarrow> jsstring" where
  "formatDelta delta =
     (if delta \<ge> 0 then js ''+'' else js ''-'') @ js '' '' @ numToString \<bar>delta\<bar>"

section \<open>Bursts within one quiet period\<close>





section \<open>Settings as registered, and sample data\<close>

text \<open>The settings the \<open>init\<close> hook registers (lines 605 to 699), with their defaults.\<close>

definition default_settings :: "string \<rightharpoonup> jsval" where
  "default_settings =
     [''simpleOutput'' \<mapsto> JBool False,
      ''npcAudience'' \<mapsto> JStr (js ''gm-owners''),
      ''trackCurrency'' \<mapsto> JBool True,
      ''trackItemChanges'' \<mapsto> JBool True,
      ''trackDnd5eInspiration'' \<mapsto> JBool True,
      ''trackDnd5eDeathSaves'' \<mapsto> JBool True,
      ''trackDnd5eSpellPrep'' \<mapsto> JBool True,
      ''trackDnd5eSpellSlots'' \<mapsto> JBool True,
      ''autoDetectPaths'' \<mapsto> JBool True,
      ''hpPath'' \<mapsto> JStr [],
      ''tempHpPath'' \<mapsto> JStr [],
      ''tempHpMaxPath'' \<mapsto> JStr [],
      ''currencyBasePath'' \<mapsto> JStr []]"

definition gm_user :: user where
  "gm_user = \<lparr>uid = ''gm1'', isGM = True\<rparr>"

definition player_user :: user where
  "player_user = \<lparr>uid = ''p1'', isGM = False\<rparr>"

text \<open>A world of the given system with one game master, who is the local user, and one
  player.\<close>

definition world :: "string \<Rightarrow> (string \<rightharpoonup> jsval) \<Rightarrow> game" where
  "world sys st =
     \<lparr>system_id = sys, userId = ''gm1'', users = [gm_user, player_user], settings = st,
      stringToNumber = (\<lambda>s. None)\<rparr>"

text \<open>A world whose only user is a player.\<close>

definition world_without_gm :: game where
  "world_without_gm =
     \<lparr>system_id = ''dnd5e'', userId = ''p1'', users = [player_user],
      settings = default_settings, stringToNumber = (\<lambda>s. None)\<rparr>"

text \<open>An actor of the given type, named Goblin, owned by the player, with the given
  document.\<close>

definition goblin :: "string \<Rightarrow> doc \<Rightarrow> actor" where
  "goblin ty d =
     \<lparr>uuid = ''Actor.g1'', name = Some (js ''Goblin''), atype = ty, isToken = False,
      token = None, activeTokens = [], data = d,
      testUserPermission = Some (\<lambda>u. uid u = ''p1'')\<rparr>"

definition unowned_npc :: actor where
  "unowned_npc =
     \<lparr>uuid = ''Actor.n1'', name = Some (js ''Bandit''), atype = ''npc'', isToken = False,
      token = None, activeTokens = [], data = Map.empty,
      testUserPermission = Some (\<lambda>u. False)\<rparr>"

definition hp_doc :: "int \<Rightarrow> doc" where
  "hp_doc n = [js ''system.attributes.hp.value'' \<mapsto> JNum n]"

text \<open>A potion carried by the goblin, with the given quantity.\<close>

definition potion :: "int \<Rightarrow> item" where
  "potion n =
     \<lparr>item_uuid = ''Item.i1'', item_name = Some (js ''Potion''), item_type = ''consumable'',
      parent = Some (goblin ''character'' Map.empty),
      item_data = [js ''system.quantity'' \<mapsto> JNum n]\<rparr>"





section \<open>Name truncation\<close>

lemma concat_code_points: "concat (code_points s) = s"
  by (induction s rule: code_points.induct) auto

lemma code_points_single_step:
  "no_low_start m \<or> \<not> is_high_surrogate u \<Longrightarrow> code_points (u # m) = [u] # code_points m"
  by (cases m) (auto simp: no_low_start_def)

lemma code_points_head: "\<exists>p ps. code_points (v # rest) = (v # p) # ps"
  by (cases rest) auto

lemma code_points_take_append:
  "no_low_start m \<Longrightarrow>
   code_points (concat (take n (code_points s)) @ m) = take n (code_points s) @ code_points m"
proof (induction s arbitrary: n rule: code_points.induct)
  case 1
  then show ?case by simp
next
  case (2 u)
  then show ?case by (cases n) (simp_all add: code_points_single_step)
next
  case (3 u v rest)
  show ?case
  proof (cases n)
    case 0
    then show ?thesis by simp
  next
    case (Suc k)
    show ?thesis
    proof (cases "is_high_surrogate u \<and> is_low_surrogate v")
      case True
      with Suc 3 show ?thesis by simp
    next
      case False
      obtain p ps where h: "code_points (v # rest) = (v # p) # ps"
        using code_points_head by blast
      have step: "code_points (u # concat (take k (code_points (v # rest))) @ m)
                  = [u] # code_points (concat (take k (code_points (v # rest))) @ m)"
      proof (cases k)
        case 0
        then show ?thesis using 3(3) by (simp add: code_points_single_step)
      next
        case (Suc j)
        then show ?thesis using h False by auto
      qed
      have cp: "code_points (u # v # rest) = [u] # code_points (v # rest)"
        using False by auto
      from 3(2)[OF False 3(3), of k] step show ?thesis
        unfolding cp Suc by simp
    qed
  qed
qed

lemma no_low_start_ELLIPSIS: "no_low_start ELLIPSIS"
  by (simp add: no_low_start_def ELLIPSIS_def is_low_surrogate_def)

lemma no_low_start_brackets: "no_low_start (js ''[...]'')"
  by (simp add: no_low_start_def js_def is_low_surrogate_def)

lemma code_points_ELLIPSIS: "code_points ELLIPSIS = [ELLIPSIS]"
  by (simp add: ELLIPSIS_def)

lemma code_points_brackets: "code_points (js ''[...]'') = map (\<lambda>u. [u]) (js ''[...]'')"
  by (simp add: js_def is_high_surrogate_def)

text \<open>
  Claim C8. For every input string, \<open>clipName\<close> returns the string unchanged when its
  number of whole characters (code points, as \<open>Array.from\<close> counts them) is at most the
  budget, 25 or 30 by variant; otherwise it returns exactly the first budget whole
  characters followed by the marker, and the characters of the result are those whole
  characters and the marker: no surrogate pair is split.
\<close>

theorem clipName_whole_characters:
  "(length (code_points s) \<le> 25 \<longrightarrow> clipName (Some s) = s \<and> clipName_v1 (Some s) = s)
   \<and> (length (code_points s) \<le> 30 \<longrightarrow> clipName_p1 (Some s) = s)
   \<and> (25 < length (code_points s) \<longrightarrow>
        clipName (Some s) = concat (take 25 (code_points s)) @ ELLIPSIS
        \<and> code_points (clipName (Some s)) = take 25 (code_points s) @ [ELLIPSIS]
        \<and> clipName_v1 (Some s) = concat (take 25 (code_points s)) @ js ''[...]''
        \<and> code_points (clipName_v1 (Some s))
            = take 25 (code_points s) @ map (\<lambda>u. [u]) (js ''[...]''))
   \<and> (30 < length (code_points s) \<longrightarrow>
        clipName_p1 (Some s) = concat (take 30 (code_points s)) @ js ''[...]''
        \<and> code_points (clipName_p1 (Some s))
            = take 30 (code_points s) @ map (\<lambda>u. [u]) (js ''[...]''))"
  using code_points_take_append[OF no_low_start_ELLIPSIS, of 25 s]
        code_points_take_append[OF no_low_start_brackets, of 25 s]
        code_points_take_append[OF no_low_start_brackets, of 30 s]
  by (simp add: clipName_def clipName_v1_def clipName_p1_def MAX_NAME_CHARS_def
      MAX_NAME_CHARS_p1_def concat_code_points code_points_ELLIPSIS code_points_brackets)

theorem clipName_whole_characters_witness:
  "25 < length (code_points (js ''abcdefghijklmnopqrstuvwx'' @ [0xD83D, 0xDE00, 0x62, 0x63]))
   \<and> clipName (Some (js ''abcdefghijklmnopqrstuvwx'' @ [0xD83D, 0xDE00, 0x62, 0x63]))
       = js ''abcdefghijklmnopqrstuvwx'' @ [0xD83D, 0xDE00, 0x2026]
   \<and> length (code_points (js ''Goblin'')) \<le> 25 \<and> clipName (Some (js ''Goblin'')) = js ''Goblin''"
  using clipName_whole_characters[of "js ''abcdefghijklmnopqrstuvwx'' @ [0xD83D, 0xDE00, 0x62, 0x63]"]
        clipName_whole_characters[of "js ''Goblin''"]
  by (simp add: js_def is_high_surrogate_def is_low_surrogate_def ELLIPSIS_def)

section \<open>Path resolution\<close>

lemma find_or_null_first_match:
  assumes "[] \<notin> set xs"
  shows "(case find_or_null pred xs of
            Some p \<Rightarrow> \<exists>i<length xs. xs ! i = p \<and> pred p \<and> (\<forall>j<i. \<not> pred (xs ! j))
          | None \<Rightarrow> \<forall>p\<in>set xs. \<not> pred p)"
proof (cases "find pred xs")
  case None
  then have "\<forall>p\<in>set xs. \<not> pred p" by (auto simp: find_None_iff)
  with None show ?thesis by (simp add: find_or_null_def)
next
  case (Some p)
  then have m: "\<exists>i<length xs. xs ! i = p \<and> pred p \<and> (\<forall>j<i. \<not> pred (xs ! j))"
    by (auto simp: find_Some_iff)
  then have "p \<in> set xs" by auto
  with assms have "p \<noteq> []" by auto
  with Some m show ?thesis by (simp add: find_or_null_def)
qed

lemma candidates_nonempty:
  "[] \<notin> set candidatesHP" "[] \<notin> set candidatesTemp" "[] \<notin> set candidatesTempMax"
  by (simp_all add: candidatesHP_def candidatesTemp_def candidatesTempMax_def js_def)

text \<open>
  Claim C9. For an unknown system identifier, each of the three fields resolves to the
  first path of its candidate list whose value on the sample record coerces to a finite
  number, and to \<open>null\<close> when no candidate does. The function is total: it has no error
  outcome.
\<close>

theorem detectSystemPaths_first_finite_candidate:
  assumes "system_id g \<notin> {''dnd5e'', ''pf2e'', ''shadowdark''}"
  shows "(case hpPath (detectSystemPaths g a) of
            Some p \<Rightarrow> \<exists>i<length candidatesHP. candidatesHP ! i = p \<and> probe g a p
                        \<and> (\<forall>j<i. \<not> probe g a (candidatesHP ! j))
          | None \<Rightarrow> \<forall>p\<in>set candidatesHP. \<not> probe g a p)
       \<and> (case tempPath (detectSystemPaths g a) of
            Some p \<Rightarrow> \<exists>i<length candidatesTemp. candidatesTemp ! i = p \<and> probe g a p
                        \<and> (\<forall>j<i. \<not> probe g a (candidatesTemp ! j))
          | None \<Rightarrow> \<forall>p\<in>set candidatesTemp. \<not> probe g a p)
       \<and> (case tempMaxPath (detectSystemPaths g a) of
            Some p \<Rightarrow> \<exists>i<length candidatesTempMax. candidatesTempMax ! i = p \<and> probe g a p
                        \<and> (\<forall>j<i. \<not> probe g a (candidatesTempMax ! j))
          | None \<Rightarrow> \<forall>p\<in>set candidatesTempMax. \<not> probe g a p)"
proof -
  have "detectSystemPaths g a =
          \<lparr>hpPath = find_or_null (probe g a) candidatesHP,
           tempPath = find_or_null (probe g a) candidatesTemp,
           tempMaxPath = find_or_null (probe g a) candidatesTempMax,
           damageSystem = False\<rparr>"
    using assms by (simp add: detectSystemPaths_def)
  then show ?thesis
    using find_or_null_first_match[OF candidates_nonempty(1), of "probe g a"]
          find_or_null_first_match[OF candidates_nonempty(2), of "probe g a"]
          find_or_null_first_match[OF candidates_nonempty(3), of "probe g a"]
    by simp
qed

theorem detectSystemPaths_first_finite_candidate_witness:
  "system_id (world ''homebrew'' default_settings) \<notin> {''dnd5e'', ''pf2e'', ''shadowdark''}
   \<and> hpPath (detectSystemPaths (world ''homebrew'' default_settings)
        (Some (goblin ''npc'' [js ''system.attributes.hp.value'' \<mapsto> JStr (js ''n/a''),
                               js ''system.hp.value'' \<mapsto> JNum 7])))
       = Some (js ''system.hp.value'')
   \<and> tempPath (detectSystemPaths (world ''homebrew'' default_settings)
        (Some (goblin ''npc'' [js ''system.attributes.hp.value'' \<mapsto> JStr (js ''n/a''),
                               js ''system.hp.value'' \<mapsto> JNum 7])))
       = None"
proof -
  have h: "system_id (world ''homebrew'' default_settings)
             \<notin> {''dnd5e'', ''pf2e'', ''shadowdark''}"
    by (simp add: world_def)
  have t: "tempPath (detectSystemPaths (world ''homebrew'' default_settings)
        (Some (goblin ''npc'' [js ''system.attributes.hp.value'' \<mapsto> JStr (js ''n/a''),
                               js ''system.hp.value'' \<mapsto> JNum 7]))) = None"
    by (simp add: detectSystemPaths_def world_def goblin_def find_or_null_def probe_def
        candidatesTemp_def getProperty_def js_def Let_def)
  have v: "hpPath (detectSystemPaths (world ''homebrew'' default_settings)
        (Some (goblin ''npc'' [js ''system.attributes.hp.value'' \<mapsto> JStr (js ''n/a''),
                               js ''system.hp.value'' \<mapsto> JNum 7])))
       = Some (js ''system.hp.value'')"
    by (simp add: detectSystemPaths_def world_def goblin_def find_or_null_def probe_def
        candidatesHP_def getProperty_def js_def Let_def)
  from detectSystemPaths_first_finite_candidate[OF h,
         of "Some (goblin ''npc'' [js ''system.attributes.hp.value'' \<mapsto> JStr (js ''n/a''),
                                   js ''system.hp.value'' \<mapsto> JNum 7])"]
       h t v
  show ?thesis by simp
qed

section \<open>Recipients\<close>

lemma map_set_nonempty: "map_set u acc \<noteq> []"
  by (cases acc) auto

lemma uids_map_set: "uid ` set (map_set u acc) = insert (uid u) (uid ` set acc)"
  by (induction acc) auto

lemma uids_foldl_map_set:
  "uid ` set (foldl (\<lambda>acc u. map_set u acc) acc us) = uid ` set acc \<union> uid ` set us"
  by (induction us arbitrary: acc) (simp_all add: uids_map_set)

lemma uids_uniq: "uid ` set (uniq us) = uid ` set us"
  by (simp add: uniq_def uids_foldl_map_set)

lemma foldl_map_set_nonempty:
  "acc \<noteq> [] \<Longrightarrow> foldl (\<lambda>acc u. map_set u acc) acc us \<noteq> []"
  by (induction us arbitrary: acc) (auto simp: map_set_nonempty)

lemma uniq_empty_iff: "uniq us = [] \<longleftrightarrow> us = []"
proof (cases us)
  case Nil
  then show ?thesis by (simp add: uniq_def)
next
  case (Cons u rest)
  then show ?thesis
    using foldl_map_set_nonempty[of "map_set u []" rest] by (simp add: uniq_def)
qed

lemma buildRecipients_v1_eq: "buildRecipients_v1 g a = buildRecipients g a"
  by (auto simp: buildRecipients_v1_def buildRecipients_def Let_def uniq_empty_iff
      split: sum.splits)

text \<open>
  Claim C2 says the recipient list is never empty. It is empty in a world without a
  game-master user: the fallback of the first variant falls back to the game-master users,
  of which there are none whenever the computed list is empty.
\<close>

theorem buildRecipients_empty_counterexample:
  "buildRecipients world_without_gm unowned_npc = Inr []
   \<and> buildRecipients_v1 world_without_gm unowned_npc = Inr []"
  by (simp add: buildRecipients_def buildRecipients_v1_def npcAudience_def
      world_without_gm_def default_settings_def unowned_npc_def gmUsers_def owners_def
      player_user_def uniq_def js_def)

text \<open>
  Claim C2, amended. For every actor and every audience policy value, the recipient list
  holds exactly the ids of the game-master users and of the other users the policy permits
  (none, the players, or the owners); it contains every game-master user, so it is not
  empty when there is one; and when that union is empty the result is the list of
  game-master users. Both variants of \<open>buildRecipients\<close> return the same list.
\<close>

theorem buildRecipients_includes_game_masters:
  assumes "settings g ''npcAudience'' = Some (JStr mode)"
  shows "\<exists>ids. buildRecipients g a = Inr ids \<and> buildRecipients_v1 g a = Inr ids
           \<and> (let others = (if atype a = ''npc'' \<and> mode = js ''gm'' then []
                             else if atype a = ''npc'' \<and> mode = js ''gm-players''
                             then filter (\<lambda>u. \<not> isGM u) (users g)
                             else owners g a)
               in set ids = uid ` set (gmUsers g @ others)
                  \<and> (gmUsers g @ others = [] \<longrightarrow> ids = map uid (gmUsers g)))
           \<and> uid ` set (gmUsers g) \<subseteq> set ids
           \<and> (gmUsers g \<noteq> [] \<longrightarrow> ids \<noteq> [])"
proof -
  have m: "npcAudience g = Inr (JStr mode)"
    using assms by (simp add: npcAudience_def)
  have "\<exists>ids. buildRecipients g a = Inr ids"
    using m by (simp add: buildRecipients_def)
  then obtain ids where ids: "buildRecipients g a = Inr ids" ..
  have char: "let others = (if atype a = ''npc'' \<and> mode = js ''gm'' then []
                             else if atype a = ''npc'' \<and> mode = js ''gm-players''
                             then filter (\<lambda>u. \<not> isGM u) (users g)
                             else owners g a)
               in set ids = uid ` set (gmUsers g @ others)
                  \<and> (gmUsers g @ others = [] \<longrightarrow> ids = map uid (gmUsers g))"
    using ids m
    by (auto simp: buildRecipients_def uids_uniq uniq_empty_iff Let_def image_Un
        split: if_splits)
  have sub: "uid ` set (gmUsers g) \<subseteq> set ids"
    using char by (auto simp: Let_def)
  have ne: "gmUsers g \<noteq> [] \<longrightarrow> ids \<noteq> []"
    using sub by (cases "gmUsers g") auto
  from ids char sub ne show ?thesis by (simp add: buildRecipients_v1_eq)
qed

theorem buildRecipients_includes_game_masters_witness:
  "settings (world ''dnd5e'' default_settings) ''npcAudience'' = Some (JStr (js ''gm-owners''))
   \<and> buildRecipients (world ''dnd5e'' default_settings) (goblin ''npc'' Map.empty)
       = Inr [''gm1'', ''p1'']
   \<and> gmUsers (world ''dnd5e'' default_settings) \<noteq> []"
  using buildRecipients_includes_game_masters
          [of "world ''dnd5e'' default_settings" "js ''gm-owners''" "goblin ''npc'' Map.empty"]
  by (simp add: buildRecipients_def npcAudience_def world_def default_settings_def
      goblin_def gmUsers_def owners_def gm_user_def player_user_def uniq_def js_def)

section \<open>Change detection and formatting\<close>

lemmas eval_world = world_def default_settings_def goblin_def gm_user_def player_user_def
  hp_doc_def

lemma readNumber_missing:
  "readNumber g d None = 0"
  "d p = None \<Longrightarrow> readNumber g d (Some p) = 0"
  "d p = Some JNaN \<Longrightarrow> readNumber g d (Some p) = 0"
  "d p = Some (JStr s) \<Longrightarrow> stringToNumber g s = None \<Longrightarrow> readNumber g d (Some p) = 0"
  "p \<noteq> [] \<Longrightarrow> d p = Some (JNum n) \<Longrightarrow> readNumber g d (Some p) = n"
  by (simp_all add: readNumber_def getProperty_def)

lemma postMonitorMessage_ok:
  \<open>buildRecipients g a = Inr w \<Longrightarrow>
   postMonitorMessage g a line c k multi =
     ([\<lparr>content = js ''<div class="'' @ (if multi then js ''tiny-monitor-line tm-multiline''
                          else js ''tiny-monitor-line'') @ js ''">'' @ line @ js ''</div>'',
        whisper = w, kind = k, cls = c\<rparr>], None)\<close>
  by (simp add: postMonitorMessage_def)

lemma digits_small: "n < 10 \<Longrightarrow> digits n = [of_nat (48 + n)]"
  by (simp add: digits.simps)

lemma digits_two: "10 \<le> n \<Longrightarrow> n < 100 \<Longrightarrow>
  digits n = [of_nat (48 + n div 10), of_nat (48 + n mod 10)]"
  by (subst digits.simps) (simp add: digits_small)

text \<open>
  Claim C3. For every tracked numeric field (hit points, temporary and temporary maximum
  hit points, each coin, death-save successes and failures, each spell slot level, item
  quantity): if the stashed before-value equals the value read after the mutation, both
  read by \<open>readNumber\<close>, which gives 0 for a missing path, a missing value and a string
  the runtime does not convert to a finite number, then that field posts no chat line.
\<close>

theorem equal_values_post_nothing:
  "(oldHP pd = Some (readNumber g (data a) (hpPath ps)) \<longrightarrow> hp_step g a pd ps = ([], None))
   \<and> (oldTHP pd = Some (readNumber g (data a) (tempPath ps))
        \<longrightarrow> temp_step g a pd ps = ([], None))
   \<and> (oldTHPMax pd = Some (readNumber g (data a) (tempMaxPath ps))
        \<longrightarrow> tempmax_step g a pd ps = ([], None))
   \<and> ((case currencyOld pd k of None \<Rightarrow> 0 | Some v \<Rightarrow> v)
          = readNumber g (data a) (Some (base @ js ''.'' @ js k))
        \<longrightarrow> coin_step g a pd base k = ([], None))
   \<and> (oldSucc = readNumber g (data a) (Some successPath)
        \<longrightarrow> death_success_step g a oldSucc = ([], None))
   \<and> (oldFail = readNumber g (data a) (Some failurePath)
        \<longrightarrow> death_failure_step g a oldFail = ([], None))
   \<and> (slot_oldValue sl = readNumber g (data a) (Some (slot_path sl))
        \<longrightarrow> slot_step g a (lvl, sl) = ([], None))
   \<and> (oldQty ipd = Some (readNumber g (item_data it) (Some quantityPath))
        \<longrightarrow> quantity_step g it par ipd = ([], None))
   \<and> readNumber g d None = 0
   \<and> (d p = None \<longrightarrow> readNumber g d (Some p) = 0)
   \<and> (d p = Some (JStr s) \<and> stringToNumber g s = None \<longrightarrow> readNumber g d (Some p) = 0)"
  by (simp add: hp_step_def temp_step_def tempmax_step_def coin_step_def
      death_success_step_def death_failure_step_def slot_step_def quantity_step_def
      nothing_def Let_def readNumber_missing)

theorem equal_values_post_nothing_witness:
  "oldHP (new_pending\<lparr>oldHP := Some 10\<rparr>)
     = Some (readNumber (world ''dnd5e'' default_settings) (data (goblin ''npc'' (hp_doc 10)))
               (hpPath (resolvePaths (world ''dnd5e'' default_settings)
                          (Some (goblin ''npc'' (hp_doc 10))))))
   \<and> hp_step (world ''dnd5e'' default_settings) (goblin ''npc'' (hp_doc 10))
        (new_pending\<lparr>oldHP := Some 10\<rparr>)
        (resolvePaths (world ''dnd5e'' default_settings) (Some (goblin ''npc'' (hp_doc 10))))
       = ([], None)
   \<and> map_option p_oldHP
        (preUpdateActor_stash (world ''dnd5e'' default_settings) (goblin ''npc'' (hp_doc 10))
           [js ''system.attributes.hp.value'' \<mapsto> JNum 10])
       = Some (Some 10)"
proof -
  have h: "oldHP (new_pending\<lparr>oldHP := Some 10\<rparr>)
     = Some (readNumber (world ''dnd5e'' default_settings) (data (goblin ''npc'' (hp_doc 10)))
               (hpPath (resolvePaths (world ''dnd5e'' default_settings)
                          (Some (goblin ''npc'' (hp_doc 10))))))"
    by (simp add: new_pending_def resolvePaths_def detectSystemPaths_def getWorldBool_def
        readNumber_def getProperty_def eval_world js_def)
  have st: "map_option p_oldHP
        (preUpdateActor_stash (world ''dnd5e'' default_settings) (goblin ''npc'' (hp_doc 10))
           [js ''system.attributes.hp.value'' \<mapsto> JNum 10])
       = Some (Some 10)"
    by (simp add: preUpdateActor_stash_def resolvePaths_def detectSystemPaths_def
        getWorldBool_def willUpdatePath_def hasProperty_def readNumber_def getProperty_def
        eval_world js_def Let_def)
  from h st
    equal_values_post_nothing[of "new_pending\<lparr>oldHP := Some 10\<rparr>"
      "world ''dnd5e'' default_settings" "goblin ''npc'' (hp_doc 10)"
      "resolvePaths (world ''dnd5e'' default_settings) (Some (goblin ''npc'' (hp_doc 10)))"]
  show ?thesis by blast
qed

text \<open>
  Claim C4. A posted numeric change line (hit points, temporary and temporary maximum
  hit points, a coin) with \<open>delta = new - old \<noteq> 0\<close>, where the old value, the new value
  and their difference are safe integers (so that the subtraction of the doubles is exact
  and they print as decimal digits), shows the sign \<open>+\<close> exactly when \<open>delta > 0\<close> and
  \<open>-\<close> otherwise, and the magnitude \<open>|delta|\<close>; with simplified output off it shows the
  old value before and the new value after them, so 10 to 15 reads \<open>HP: 10 + 5 \<rightarrow> 15\<close>
  and 5 to 2 reads \<open>HP: 5 - 3 \<rightarrow> 2\<close>. \<open>formatDelta\<close> of the first release gives the
  same sign and magnitude for a nonzero delta.
\<close>

theorem sign_and_magnitude:
  assumes "buildRecipients g a = Inr w" and "new \<noteq> old"
    and "isSafeInteger old" and "isSafeInteger new" and "isSafeInteger (new - old)"
  shows \<open>let shown = (\<lambda>icon label.
               js ''<div class="tiny-monitor-line">''
               @ buildMonitorLine a icon
                   (label @ js '': ''
                    @ (if getWorldBool g ''simpleOutput'' False then []
                       else numToString old @ js '' '')
                    @ (if new > old then js ''+'' else js ''-'') @ js '' ''
                    @ numToString \<bar>new - old\<bar>
                    @ (if getWorldBool g ''simpleOutput'' False then []
                       else js '' '' @ ARROW @ js '' '' @ numToString new))
               @ js ''</div>'')
         in (oldHP pd = Some old \<and> \<not> no_path (hpPath ps)
               \<and> readNumber g (data a) (hpPath ps) = new
             \<longrightarrow> (\<exists>m. hp_step g a pd ps = ([m], None)
                    \<and> content m = shown (js ''<i class="fa-solid fa-heart"></i>'')
                                      (if damageSystem ps then js ''Damage'' else js ''HP'')))
          \<and> (oldTHP pd = Some old \<and> \<not> no_path (tempPath ps)
               \<and> readNumber g (data a) (tempPath ps) = new
             \<longrightarrow> (\<exists>m. temp_step g a pd ps = ([m], None)
                    \<and> content m = shown (js ''<i class="fa-solid fa-shield-halved"></i>'')
                                      (js ''Temp'')))
          \<and> (oldTHPMax pd = Some old \<and> \<not> no_path (tempMaxPath ps)
               \<and> readNumber g (data a) (tempMaxPath ps) = new
             \<longrightarrow> (\<exists>m. tempmax_step g a pd ps = ([m], None)
                    \<and> content m = shown (js ''<i class="fa-solid fa-circle-plus"></i>'')
                                      (js ''Temp Max'')))
          \<and> ((case currencyOld pd k of None \<Rightarrow> 0 | Some v \<Rightarrow> v) = old
               \<and> readNumber g (data a) (Some (base @ js ''.'' @ js k)) = new
             \<longrightarrow> (\<exists>m. coin_step g a pd base k = ([m], None)
                    \<and> content m = shown (js ''<i class="fa-solid fa-coins"></i>'')
                                      (coinLabel k (system_id g))))
          \<and> formatDelta (new - old)
              = (if new > old then js ''+'' else js ''-'') @ js '' '' @ numToString \<bar>new - old\<bar>
          \<and> js ''+'' \<noteq> js ''-''
          \<and> deltaText False (js ''HP'') 10 15 = js ''HP: 10 + 5 '' @ ARROW @ js '' 15''
          \<and> deltaText False (js ''HP'') 5 2 = js ''HP: 5 - 3 '' @ ARROW @ js '' 2''\<close>
proof -
  have ex: "deltaText False (js ''HP'') 10 15 = js ''HP: 10 + 5 '' @ ARROW @ js '' 15''"
           "deltaText False (js ''HP'') 5 2 = js ''HP: 5 - 3 '' @ ARROW @ js '' 2''"
    by (simp_all add: deltaText_def signOf_def numToString_def digits_small digits_two js_def)
  have fd: "formatDelta (new - old)
             = (if new > old then js ''+'' else js ''-'') @ js '' '' @ numToString \<bar>new - old\<bar>"
    using assms(2) by (simp add: formatDelta_def)
  have ne: "js ''+'' \<noteq> js ''-''" by (simp add: js_def)
  have pre: \<open>js ''<div class="'' @ js ''tiny-monitor-line'' @ js ''">'' @ x
               = js ''<div class="tiny-monitor-line">'' @ x\<close> for x
    by (simp add: js_def)
  have dt: "deltaText s label old new =
              label @ js '': '' @ (if s then [] else numToString old @ js '' '')
              @ (if new > old then js ''+'' else js ''-'') @ js '' '' @ numToString \<bar>new - old\<bar>
              @ (if s then [] else js '' '' @ ARROW @ js '' '' @ numToString new)" for s label
    by (simp add: deltaText_def signOf_def Let_def)
  have hp: \<open>oldHP pd = Some old \<and> \<not> no_path (hpPath ps)
               \<and> readNumber g (data a) (hpPath ps) = new
             \<longrightarrow> (\<exists>m. hp_step g a pd ps = ([m], None)
                    \<and> content m = js ''<div class="tiny-monitor-line">''
                        @ buildMonitorLine a (js ''<i class="fa-solid fa-heart"></i>'')
                            (deltaText (getWorldBool g ''simpleOutput'' False)
                               (if damageSystem ps then js ''Damage'' else js ''HP'') old new)
                        @ js ''</div>'')\<close>
    using assms(1,2) by (simp add: hp_step_def postMonitorMessage_ok Let_def pre)
  have tp: \<open>oldTHP pd = Some old \<and> \<not> no_path (tempPath ps)
               \<and> readNumber g (data a) (tempPath ps) = new
             \<longrightarrow> (\<exists>m. temp_step g a pd ps = ([m], None)
                    \<and> content m = js ''<div class="tiny-monitor-line">''
                        @ buildMonitorLine a (js ''<i class="fa-solid fa-shield-halved"></i>'')
                            (deltaText (getWorldBool g ''simpleOutput'' False) (js ''Temp'')
                               old new)
                        @ js ''</div>'')\<close>
    using assms(1,2) by (simp add: temp_step_def postMonitorMessage_ok Let_def pre)
  have tm: \<open>oldTHPMax pd = Some old \<and> \<not> no_path (tempMaxPath ps)
               \<and> readNumber g (data a) (tempMaxPath ps) = new
             \<longrightarrow> (\<exists>m. tempmax_step g a pd ps = ([m], None)
                    \<and> content m = js ''<div class="tiny-monitor-line">''
                        @ buildMonitorLine a (js ''<i class="fa-solid fa-circle-plus"></i>'')
                            (deltaText (getWorldBool g ''simpleOutput'' False) (js ''Temp Max'')
                               old new)
                        @ js ''</div>'')\<close>
    using assms(1,2) by (simp add: tempmax_step_def postMonitorMessage_ok Let_def pre)
  have cn: \<open>(case currencyOld pd k of None \<Rightarrow> 0 | Some v \<Rightarrow> v) = old
               \<and> readNumber g (data a) (Some (base @ js ''.'' @ js k)) = new
             \<longrightarrow> (\<exists>m. coin_step g a pd base k = ([m], None)
                    \<and> content m = js ''<div class="tiny-monitor-line">''
                        @ buildMonitorLine a (js ''<i class="fa-solid fa-coins"></i>'')
                            (deltaText (getWorldBool g ''simpleOutput'' False)
                               (coinLabel k (system_id g)) old new)
                        @ js ''</div>'')\<close>
    using assms(1,2) by (auto simp: coin_step_def postMonitorMessage_ok Let_def pre)
  show ?thesis
    unfolding Let_def
    using hp tp tm cn fd ne ex unfolding dt by (intro conjI)
qed

theorem sign_and_magnitude_witness:
  \<open>isSafeInteger 10 \<and> isSafeInteger 15 \<and> isSafeInteger (15 - 10)
   \<and> buildRecipients (world ''dnd5e'' default_settings) (goblin ''npc'' (hp_doc 15))
     = Inr [''gm1'', ''p1'']
   \<and> readNumber (world ''dnd5e'' default_settings) (data (goblin ''npc'' (hp_doc 15)))
        (Some (js ''system.attributes.hp.value'')) = 15
   \<and> fst (hp_step (world ''dnd5e'' default_settings) (goblin ''npc'' (hp_doc 15))
        (new_pending\<lparr>oldHP := Some 10\<rparr>)
        (resolvePaths (world ''dnd5e'' default_settings) (Some (goblin ''npc'' (hp_doc 15)))))
     = [\<lparr>content = js ''<div class="tiny-monitor-line"><i class="fa-solid fa-heart"></i>''
                    @ js ''<span class="tm-actor">@UUID[Actor.g1]{Goblin}</span>''
                    @ js ''<span class="tm-text">HP: 10 + 5 '' @ ARROW @ js '' 15</span></div>'',
          whisper = [''gm1'', ''p1''], kind = ''hp'', cls = ''tiny-monitor-gain''\<rparr>]\<close>
proof -
  have ps: "resolvePaths (world ''dnd5e'' default_settings) (Some (goblin ''npc'' (hp_doc 15)))
    = \<lparr>hpPath = Some (js ''system.attributes.hp.value''),
       tempPath = Some (js ''system.attributes.hp.temp''),
       tempMaxPath = Some (js ''system.attributes.hp.tempmax''), damageSystem = False\<rparr>"
    by (simp add: resolvePaths_def detectSystemPaths_def getWorldBool_def eval_world)
  have w: "buildRecipients (world ''dnd5e'' default_settings) (goblin ''npc'' (hp_doc 15))
     = Inr [''gm1'', ''p1'']"
    by (simp add: buildRecipients_def npcAudience_def gmUsers_def owners_def uniq_def
        eval_world js_def)
  have r: "readNumber (world ''dnd5e'' default_settings) (data (goblin ''npc'' (hp_doc 15)))
        (Some (js ''system.attributes.hp.value'')) = 15"
    by (simp add: readNumber_def getProperty_def eval_world js_def)
  have o: "oldHP (new_pending\<lparr>oldHP := Some 10\<rparr>) = Some 10" by simp
  have np: "\<not> no_path (hpPath \<lparr>hpPath = Some (js ''system.attributes.hp.value''),
       tempPath = Some (js ''system.attributes.hp.temp''),
       tempMaxPath = Some (js ''system.attributes.hp.tempmax''), damageSystem = False\<rparr>)"
    by (simp add: no_path_def js_def)
  have r': "readNumber (world ''dnd5e'' default_settings) (data (goblin ''npc'' (hp_doc 15)))
        (hpPath \<lparr>hpPath = Some (js ''system.attributes.hp.value''),
       tempPath = Some (js ''system.attributes.hp.temp''),
       tempMaxPath = Some (js ''system.attributes.hp.tempmax''), damageSystem = False\<rparr>) = 15"
    using r by simp
  have d: "(15::int) \<noteq> 10" by simp
  have si: "isSafeInteger 10" "isSafeInteger 15" "isSafeInteger (15 - 10)"
    by (simp_all add: isSafeInteger_def MAX_SAFE_INTEGER_def)
  have sv: "getWorldBool (world ''dnd5e'' default_settings) ''simpleOutput'' False = False"
    by (simp add: getWorldBool_def eval_world)
  have link: "getActorLink (goblin ''npc'' (hp_doc 15)) = js ''@UUID[Actor.g1]{Goblin}''"
    by (simp add: getActorLink_def clipName_def MAX_NAME_CHARS_def goblin_def js_def
        is_high_surrogate_def Let_def)
  from sign_and_magnitude[OF w d si, where pd = "new_pending\<lparr>oldHP := Some 10\<rparr>"
         and ps = "\<lparr>hpPath = Some (js ''system.attributes.hp.value''),
                    tempPath = Some (js ''system.attributes.hp.temp''),
                    tempMaxPath = Some (js ''system.attributes.hp.tempmax''),
                    damageSystem = False\<rparr>",
         unfolded Let_def, THEN conjunct1] o np r'
  obtain m where m: "hp_step (world ''dnd5e'' default_settings) (goblin ''npc'' (hp_doc 15))
        (new_pending\<lparr>oldHP := Some 10\<rparr>)
        \<lparr>hpPath = Some (js ''system.attributes.hp.value''),
         tempPath = Some (js ''system.attributes.hp.temp''),
         tempMaxPath = Some (js ''system.attributes.hp.tempmax''), damageSystem = False\<rparr>
        = ([m], None)"
    by blast
  have \<open>m = \<lparr>content = js ''<div class="tiny-monitor-line"><i class="fa-solid fa-heart"></i>''
                    @ js ''<span class="tm-actor">@UUID[Actor.g1]{Goblin}</span>''
                    @ js ''<span class="tm-text">HP: 10 + 5 '' @ ARROW @ js '' 15</span></div>'',
          whisper = [''gm1'', ''p1''], kind = ''hp'', cls = ''tiny-monitor-gain''\<rparr>\<close>
    using m r w sv
    by (simp add: hp_step_def postMonitorMessage_def no_path_def buildMonitorLine_def link
        deltaText_def signOf_def gainOrLoss_def numToString_def digits_small digits_two
        Let_def js_def)
  with m w r ps si show ?thesis by simp
qed

text \<open>
  Claim C6. When the path table has \<open>damageSystem = true\<close>, an increase of the tracked
  field is classified as loss and a decrease as gain; without it an increase is gain and
  a decrease is loss. This holds for the HP branch of \<open>updateActor\<close> in
  \<open>unnamed/part_002\<close>, where the system \<open>demonlord\<close> sets the flag, and for
  \<open>processActorUpdate\<close>.
\<close>

theorem damage_system_inverts_classification:
  assumes "buildRecipients g a = Inr w"
    and "oldHP pd = Some old" and "v_oldHP pl = Some old" and "\<not> no_path (hpPath ps)"
    and "readNumber g (data a) (hpPath ps) = new" and "new \<noteq> old"
  shows "\<exists>m line. hp_step g a pd ps = ([m], None)
           \<and> hp_results_p2 g a ps pl =
               [(line,
                 if damageSystem ps then (if new > old then ''hp-loss'' else ''hp-gain'')
                 else (if new > old then ''hp-gain'' else ''hp-loss''), ''hp'')]
           \<and> cls m =
               (if damageSystem ps
                then (if new > old then ''tiny-monitor-loss'' else ''tiny-monitor-gain'')
                else (if new > old then ''tiny-monitor-gain'' else ''tiny-monitor-loss''))"
  using assms
  by (auto simp: hp_step_def hp_results_p2_def postMonitorMessage_ok gainOrLoss_def Let_def)

theorem damage_system_inverts_classification_witness:
  "damageSystem (resolvePaths_p2 (world ''demonlord'' default_settings)
      (Some (goblin ''character'' [js ''system.characteristics.health.value'' \<mapsto> JNum 7])))
   \<and> map (\<lambda>r. fst (snd r))
        (hp_results_p2 (world ''demonlord'' default_settings)
          (goblin ''character'' [js ''system.characteristics.health.value'' \<mapsto> JNum 7])
          (resolvePaths_p2 (world ''demonlord'' default_settings)
            (Some (goblin ''character'' [js ''system.characteristics.health.value'' \<mapsto> JNum 7])))
          (empty_payload_v1\<lparr>v_oldHP := Some 5\<rparr>))
       = [''hp-loss'']
   \<and> map cls (fst
        (hp_step (world ''demonlord'' default_settings)
          (goblin ''character'' [js ''system.characteristics.health.value'' \<mapsto> JNum 7])
          (new_pending\<lparr>oldHP := Some 5\<rparr>)
          (resolvePaths_p2 (world ''demonlord'' default_settings)
            (Some (goblin ''character'' [js ''system.characteristics.health.value'' \<mapsto> JNum 7])))))
       = [''tiny-monitor-loss'']"
proof -
  have ps: "resolvePaths_p2 (world ''demonlord'' default_settings)
      (Some (goblin ''character'' [js ''system.characteristics.health.value'' \<mapsto> JNum 7]))
    = \<lparr>hpPath = Some (js ''system.characteristics.health.value''), tempPath = None,
       tempMaxPath = Some (js ''system.characteristics.health.max''), damageSystem = True\<rparr>"
    by (simp add: resolvePaths_p2_def detectSystemPaths_p2_def getWorldBool_def eval_world)
  have w: "buildRecipients (world ''demonlord'' default_settings)
      (goblin ''character'' [js ''system.characteristics.health.value'' \<mapsto> JNum 7])
     = Inr [''gm1'', ''p1'']"
    by (simp add: buildRecipients_def npcAudience_def gmUsers_def owners_def uniq_def
        eval_world js_def)
  have r: "readNumber (world ''demonlord'' default_settings)
      (data (goblin ''character'' [js ''system.characteristics.health.value'' \<mapsto> JNum 7]))
      (hpPath \<lparr>hpPath = Some (js ''system.characteristics.health.value''), tempPath = None,
       tempMaxPath = Some (js ''system.characteristics.health.max''), damageSystem = True\<rparr>) = 7"
    by (simp add: readNumber_def getProperty_def eval_world js_def)
  have np: "\<not> no_path (hpPath \<lparr>hpPath = Some (js ''system.characteristics.health.value''),
       tempPath = None, tempMaxPath = Some (js ''system.characteristics.health.max''),
       damageSystem = True\<rparr>)"
    by (simp add: no_path_def js_def)
  have o: "oldHP (new_pending\<lparr>oldHP := Some 5\<rparr>) = Some 5"
          "v_oldHP (empty_payload_v1\<lparr>v_oldHP := Some 5\<rparr>) = Some 5"
    by simp_all
  have d: "(7::int) \<noteq> 5" by simp
  from damage_system_inverts_classification[OF w o(1) o(2) np r d] ps
  show ?thesis by auto
qed

section \<open>Item quantity and deletion\<close>

text \<open>
  Claim C7 says every quantity change other than 0 to 1 and 1 to 0 posts a line showing
  the old value, the sign, the magnitude and the new value. With simplified output on,
  5 to 3 posts \<open>Potion: - 2\<close>, without the old and the new value.
\<close>

theorem quantity_simplified_counterexample:
  \<open>fst (processItemUpdate (world ''dnd5e'' (default_settings(''simpleOutput'' \<mapsto> JBool True)))
          (potion 3) \<lparr>oldQty = Some 5, oldName = None\<rparr>)
   = [\<lparr>content = js ''<div class="tiny-monitor-line tm-multiline">''
                  @ js ''<i class="fa-solid fa-backpack"></i>''
                  @ js ''<span class="tm-actor">@UUID[Actor.g1]{Goblin}</span>''
                  @ js ''<span class="tm-text">Potion: - 2</span></div>'',
        whisper = [''gm1'', ''p1''], kind = ''item'', cls = ''tiny-monitor-item-dec''\<rparr>]
   \<and> js ''Potion: - 2'' \<noteq> js ''Potion: 5 - 2 '' @ ARROW @ js '' 3''\<close>
  by (simp add: processItemUpdate_def quantity_step_def rename_step_def andThen_def nothing_def
      postMonitorMessage_def buildRecipients_def npcAudience_def world_def default_settings_def
      potion_def goblin_def gmUsers_def owners_def gm_user_def player_user_def uniq_def
      readNumber_def getProperty_def quantityPath_def getWorldBool_def buildMonitorLine_def
      getActorLink_def clipName_def MAX_NAME_CHARS_def backpack_def deltaText_def signOf_def
      numToString_def digits_small is_high_surrogate_def js_def Let_def)

text \<open>
  Claim C7, amended. In \<open>processItemUpdate\<close>, for every quantity change with old and
  new different, 0 to 1 posts \<open>added\<close> and the item name with no arithmetic, 1 to 0 posts
  \<open>deleted\<close> and the item name, and any other pair posts the item name with the sign and
  the magnitude, and with the old and the new value around them when simplified output
  is off.
\<close>

theorem quantity_phrasing:
  assumes "buildRecipients g par = Inr w" and "oldQty pd = Some old"
    and "readNumber g (item_data it) (Some quantityPath) = new" and "new \<noteq> old"
  shows \<open>\<exists>m. quantity_step g it par pd = ([m], None)
           \<and> content m =
               js ''<div class="tiny-monitor-line tm-multiline">''
               @ buildMonitorLine par backpack
                   (if old = 0 \<and> new = 1 then js ''added '' @ clipName (item_name it)
                    else if old = 1 \<and> new = 0 then js ''deleted '' @ clipName (item_name it)
                    else clipName (item_name it) @ js '': ''
                         @ (if getWorldBool g ''simpleOutput'' False then []
                            else numToString old @ js '' '')
                         @ (if new - old > 0 then js ''+'' else js ''-'') @ js '' ''
                         @ numToString \<bar>new - old\<bar>
                         @ (if getWorldBool g ''simpleOutput'' False then []
                            else js '' '' @ ARROW @ js '' '' @ numToString new))
               @ js ''</div>''\<close>
proof -
  have pre: \<open>js ''<div class="'' @ js ''tiny-monitor-line tm-multiline'' @ js ''">'' @ x
               = js ''<div class="tiny-monitor-line tm-multiline">'' @ x\<close> for x
    by (simp add: js_def)
  show ?thesis
    using assms
    by (simp add: quantity_step_def postMonitorMessage_ok deltaText_def signOf_def Let_def pre)
qed

theorem quantity_phrasing_witness:
  \<open>buildRecipients (world ''dnd5e'' default_settings) (goblin ''character'' Map.empty)
     = Inr [''gm1'', ''p1'']
   \<and> readNumber (world ''dnd5e'' default_settings) (item_data (potion 1)) (Some quantityPath) = 1
   \<and> map content (fst (quantity_step (world ''dnd5e'' default_settings) (potion 1)
        (goblin ''character'' Map.empty) \<lparr>oldQty = Some 0, oldName = None\<rparr>))
     = [js ''<div class="tiny-monitor-line tm-multiline"><i class="fa-solid fa-backpack"></i>''
        @ js ''<span class="tm-actor">@UUID[Actor.g1]{Goblin}</span>''
        @ js ''<span class="tm-text">added Potion</span></div>'']\<close>
proof -
  have w: "buildRecipients (world ''dnd5e'' default_settings) (goblin ''character'' Map.empty)
     = Inr [''gm1'', ''p1'']"
    by (simp add: buildRecipients_def npcAudience_def gmUsers_def owners_def uniq_def
        eval_world js_def)
  have r: "readNumber (world ''dnd5e'' default_settings) (item_data (potion 1))
             (Some quantityPath) = 1"
    by (simp add: readNumber_def getProperty_def potion_def quantityPath_def js_def)
  have o: "oldQty \<lparr>oldQty = Some 0, oldName = None\<rparr> = Some 0" by simp
  have d: "(1::int) \<noteq> 0" by simp
  have link: \<open>buildMonitorLine (goblin ''character'' Map.empty) backpack
                (js ''added '' @ clipName (item_name (potion 1)))
     = js ''<i class="fa-solid fa-backpack"></i>''
        @ js ''<span class="tm-actor">@UUID[Actor.g1]{Goblin}</span>''
        @ js ''<span class="tm-text">added Potion</span>''\<close>
    by (simp add: buildMonitorLine_def backpack_def getActorLink_def clipName_def
        MAX_NAME_CHARS_def goblin_def potion_def js_def is_high_surrogate_def Let_def)
  from quantity_phrasing[OF w o r d] link w r
  show ?thesis by (auto simp: js_def)
qed

text \<open>
  Claim C10. After \<open>preDeleteItem\<close> has stashed the item, \<open>deleteItem\<close> on the
  originating client posts nothing exactly when the item has a quantity field and its
  quantity before deletion was 0; whatever the stash holds, an entry with a quantity field
  and quantity 0 posts nothing, in both debounced variants of the file.
\<close>

theorem deleteItem_suppressed_at_zero_quantity:
  assumes "preDeleteItem g st it = Inr st'" and "getWorldBool g ''trackItemChanges'' False"
    and "parent it = Some par"
  shows "(snd (deleteItem g st' it (userId g)) = []
            \<longleftrightarrow> hasProperty (item_data it) quantityPath
                \<and> readNumber g (item_data it) (Some quantityPath) = 0)
       \<and> (\<forall>s pl u. s (item_uuid it) = Some pl \<and> d_hasQty pl \<and> d_qty pl = 0
              \<longrightarrow> snd (deleteItem g s it u) = [])
       \<and> (\<forall>s pl u. s (item_uuid it) = Some pl \<and> m_hasQty pl \<and> m_qty pl = 0
              \<longrightarrow> snd (deleteItem_mid g s it u) = [])
       \<and> (\<forall>s pl. s (item_uuid it) = Some pl \<and> \<not> (m_hasQty pl \<and> m_qty pl = 0)
              \<longrightarrow> snd (deleteItem_mid g s it (userId g)) \<noteq> [])"
  using assms
  by (auto simp: preDeleteItem_def deleteItem_def deleteItem_mid_def Let_def
      split: sum.splits if_splits)

theorem deleteItem_suppressed_at_zero_quantity_witness:
  "preDeleteItem (world ''dnd5e'' default_settings) Map.empty (potion 0)
     = Inr [''Item.i1'' \<mapsto>
             \<lparr>d_actor = goblin ''character'' Map.empty, d_whisper = [''gm1'', ''p1''],
              d_name = js ''Potion'', d_qty = 0, d_hasQty = True\<rparr>]
   \<and> getWorldBool (world ''dnd5e'' default_settings) ''trackItemChanges'' False
   \<and> parent (potion 0) = Some (goblin ''character'' Map.empty)
   \<and> snd (deleteItem (world ''dnd5e'' default_settings)
        [''Item.i1'' \<mapsto>
             \<lparr>d_actor = goblin ''character'' Map.empty, d_whisper = [''gm1'', ''p1''],
              d_name = js ''Potion'', d_qty = 0, d_hasQty = True\<rparr>]
        (potion 0) (userId (world ''dnd5e'' default_settings))) = []"
proof -
  have p: "preDeleteItem (world ''dnd5e'' default_settings) Map.empty (potion 0)
     = Inr [''Item.i1'' \<mapsto>
             \<lparr>d_actor = goblin ''character'' Map.empty, d_whisper = [''gm1'', ''p1''],
              d_name = js ''Potion'', d_qty = 0, d_hasQty = True\<rparr>]"
    by (simp add: preDeleteItem_def getWorldBool_def buildRecipients_def npcAudience_def
        gmUsers_def owners_def uniq_def potion_def clipName_def MAX_NAME_CHARS_def
        readNumber_def getProperty_def hasProperty_def quantityPath_def eval_world js_def
        is_high_surrogate_def Let_def)
  have t: "getWorldBool (world ''dnd5e'' default_settings) ''trackItemChanges'' False"
    by (simp add: getWorldBool_def eval_world)
  have par: "parent (potion 0) = Some (goblin ''character'' Map.empty)"
    by (simp add: potion_def)
  have q: "hasProperty (item_data (potion 0)) quantityPath
           \<and> readNumber (world ''dnd5e'' default_settings) (item_data (potion 0))
               (Some quantityPath) = 0"
    by (simp add: readNumber_def getProperty_def hasProperty_def potion_def quantityPath_def
        js_def)
  from deleteItem_suppressed_at_zero_quantity[OF p t par] q p t par
  show ?thesis by blast
qed

section \<open>The debounce coalescer: one flush per burst\<close>

lemma merge_timer [simp]: "timer (merge pd pl) = timer pd"
  by (simp add: merge_def)

lemma merge_timer_update: "merge (pd\<lparr>timer := x\<rparr>) pl = (merge pd pl)\<lparr>timer := x\<rparr>"
  by (cases pd) (simp add: merge_def split: option.splits)

lemma foldl_merge_timer_update:
  "foldl merge (pd\<lparr>timer := x\<rparr>) pls = (foldl merge pd pls)\<lparr>timer := x\<rparr>"
  by (induction pls arbitrary: pd) (simp_all add: merge_timer_update)

lemma steps_timer:
  "hp_step g a (pd\<lparr>timer := x\<rparr>) ps = hp_step g a pd ps"
  "temp_step g a (pd\<lparr>timer := x\<rparr>) ps = temp_step g a pd ps"
  "tempmax_step g a (pd\<lparr>timer := x\<rparr>) ps = tempmax_step g a pd ps"
  "inspiration_step g a (pd\<lparr>timer := x\<rparr>) = inspiration_step g a pd"
  "coin_step g a (pd\<lparr>timer := x\<rparr>) = coin_step g a pd"
  "death_step g a (pd\<lparr>timer := x\<rparr>) = death_step g a pd"
  "spellslots_step g a (pd\<lparr>timer := x\<rparr>) = spellslots_step g a pd"
  by (simp_all add: hp_step_def temp_step_def tempmax_step_def inspiration_step_def
      coin_step_def death_step_def spellslots_step_def fun_eq_iff split: option.splits)

lemma currency_step_timer:
  "currency_step g a (pd\<lparr>timer := x\<rparr>) = currency_step g a pd"
  by (simp add: currency_step_def steps_timer split: option.splits)

lemma processActorUpdate_timer:
  "processActorUpdate g a (pd\<lparr>timer := x\<rparr>) = processActorUpdate g a pd"
  by (simp only: processActorUpdate_def steps_timer currency_step_timer)





text \<open>Sequences of posts.\<close>

lemma andThen_nothing [simp]: "andThen ([], None) p = p" "andThen p ([], None) = p"
  by (cases p; simp add: andThen_def split: option.splits)+

lemma andThen_assoc: "andThen (andThen p q) r = andThen p (andThen q r)"
  by (simp add: andThen_def split: option.splits)

lemma sequence_append: "sequence (xs @ ys) = andThen (sequence xs) (sequence ys)"
  by (induction xs) (simp_all add: andThen_assoc)









lemma filter_continue_other:
  "k' \<noteq> k \<Longrightarrow> (case r of None \<Rightarrow> True | Some f' \<Rightarrow> f_key f' = k) \<Longrightarrow>
   filter (\<lambda>f. f_key f = k') (continue_flush k r fs) = filter (\<lambda>f. f_key f = k') fs"
  by (induction fs) (auto split: option.splits)





























lemma delta_texts:
  "deltaText False (js ''HP'') 10 14 = js ''HP: 10 + 4 '' @ ARROW @ js '' 14''"
  "deltaText False (js ''HP'') 10 12 = js ''HP: 10 + 2 '' @ ARROW @ js '' 12''"
  "deltaText False (js ''Temp'') 0 8 = js ''Temp: 0 + 8 '' @ ARROW @ js '' 8''"
  "deltaText False (js ''Temp'') 5 8 = js ''Temp: 5 + 3 '' @ ARROW @ js '' 8''"
  by (simp_all add: deltaText_def signOf_def numToString_def digits_small digits_two js_def)






section \<open>Exceptions in hook callbacks\<close>




end
